theory Spec2Isabelle
  imports Complex_Main
begin

section \<open>CargoForge web backend: values, errors and stored rows\<close>

text \<open>
  The backend is Python (Flask). Request bodies and the solver's output are JSON values,
  which Python handles untyped: a handler that meets a value of the wrong shape raises,
  and the raise is caught by the handler's own \<^verbatim>\<open>except Exception\<close>. The model keeps
  the values untyped and makes every raise a branch.

  Numbers: a JSON integer is a Python \<^verbatim>\<open>int\<close> (unbounded), any other JSON number a
  \<^verbatim>\<open>float\<close>, modelled by the rational it denotes. The only arithmetic the handlers do
  on request numbers is the comparison with \<open>0\<close> and one multiplication by \<open>0.2\<close>
  whose result is only printed; the non-standard tokens NaN and Infinity are not part of
  the model.
\<close>

datatype json =
    JNull
  | JBool bool
  | JInt int
  | JFloat rat
  | JStr string
  | JArr "json list"
  | JObj "(string \<times> json) list"

datatype exc =
    KeyError
  | TypeError
  | AttributeError
  | IndexError
  | OverflowError
  | OSError
  | BadRequest
  | TimeoutExpired
  | JSONDecodeError
  | IntegrityError
  | InvalidSignature

text \<open>Python truthiness (\<^verbatim>\<open>if x\<close>, \<^verbatim>\<open>not x\<close>) of a JSON value.\<close>

fun truthy :: "json \<Rightarrow> bool" where
  "truthy JNull = False"
| "truthy (JBool b) = b"
| "truthy (JInt i) = (i \<noteq> 0)"
| "truthy (JFloat r) = (r \<noteq> 0)"
| "truthy (JStr s) = (s \<noteq> [])"
| "truthy (JArr xs) = (xs \<noteq> [])"
| "truthy (JObj kvs) = (kvs \<noteq> [])"

subsection \<open>Rows of the database (app\_prod.py, lines 54--115)\<close>

text \<open>
  \<^verbatim>\<open>class User\<close>: the columns the handlers read or write. The primary key \<^verbatim>\<open>id\<close> is
  \<open>uid\<close> here. Nullable string columns are options.
\<close>

record user =
  uid :: nat
  email :: string
  username :: string
  subscription_tier :: string
  subscription_status :: "string option"
  stripe_customer_id :: "string option"
  stripe_subscription_id :: "string option"
  api_key :: "string option"

text \<open>
  \<^verbatim>\<open>User.daily_limit\<close>:
  \<^verbatim>\<open>limits = {'free': 10, 'pro': 1000, 'enterprise': 10000}\<close>,
  \<^verbatim>\<open>return limits.get(self.subscription_tier, 10)\<close>.
\<close>

definition limits :: "(string \<times> nat) list" where
  "limits = [(''free'', 10), (''pro'', 1000), (''enterprise'', 10000)]"

definition daily_limit :: "user \<Rightarrow> nat" where
  "daily_limit u = (case map_of limits (subscription_tier u) of Some n \<Rightarrow> n | None \<Rightarrow> 10)"

subsection \<open>Python operations on JSON values\<close>

text \<open>
  Each operation is the Python built-in the handlers apply to a request value, with the
  exception Python raises on a value of another type. A JSON object is an association
  list with one entry per key, in insertion order, as a Python \<^verbatim>\<open>dict\<close>.
\<close>

text \<open>\<^verbatim>\<open>d.get(k, default)\<close> on a dict.\<close>

definition dict_get :: "(string \<times> json) list \<Rightarrow> string \<Rightarrow> json \<Rightarrow> json" where
  "dict_get kvs k d = (case map_of kvs k of Some v \<Rightarrow> v | None \<Rightarrow> d)"

text \<open>\<^verbatim>\<open>d[k] = v\<close> on a dict: the key keeps its place, a new key goes last.\<close>

fun dict_set :: "(string \<times> json) list \<Rightarrow> string \<Rightarrow> json \<Rightarrow> (string \<times> json) list" where
  "dict_set [] k v = [(k, v)]"
| "dict_set ((k', v') # kvs) k v =
     (if k' = k then (k, v) # kvs else (k', v') # dict_set kvs k v)"

text \<open>\<^verbatim>\<open>x.get(k, default)\<close>: only a dict has the method.\<close>

fun py_get :: "json \<Rightarrow> string \<Rightarrow> json \<Rightarrow> exc + json" where
  "py_get (JObj kvs) k d = Inr (dict_get kvs k d)"
| "py_get _ k d = Inl AttributeError"

text \<open>\<^verbatim>\<open>x[k]\<close> with a string \<open>k\<close>.\<close>

fun py_getitem :: "json \<Rightarrow> string \<Rightarrow> exc + json" where
  "py_getitem (JObj kvs) k = (case map_of kvs k of Some v \<Rightarrow> Inr v | None \<Rightarrow> Inl KeyError)"
| "py_getitem _ k = Inl TypeError"

text \<open>\<^verbatim>\<open>x[k] = v\<close> with a string \<open>k\<close>.\<close>

fun py_setitem :: "json \<Rightarrow> string \<Rightarrow> json \<Rightarrow> exc + json" where
  "py_setitem (JObj kvs) k v = Inr (JObj (dict_set kvs k v))"
| "py_setitem _ k v = Inl TypeError"

text \<open>
  \<^verbatim>\<open>x[i]\<close> with a literal index \<open>i \<ge> 0\<close> (the code uses 0, 1 and 2). A dict from JSON
  has string keys only, so an integer key is missing.
\<close>

fun py_index :: "json \<Rightarrow> nat \<Rightarrow> exc + json" where
  "py_index (JArr xs) i = (if i < length xs then Inr (xs ! i) else Inl IndexError)"
| "py_index (JStr s) i = (if i < length s then Inr (JStr [s ! i]) else Inl IndexError)"
| "py_index (JObj kvs) i = Inl KeyError"
| "py_index _ i = Inl TypeError"

text \<open>\<^verbatim>\<open>p in s\<close> on strings: \<open>p\<close> occurs in \<open>s\<close> as a contiguous run.\<close>

fun is_substring :: "string \<Rightarrow> string \<Rightarrow> bool" where
  "is_substring p [] = (p = [])"
| "is_substring p (c # cs) = (take (length p) (c # cs) = p \<or> is_substring p cs)"

text \<open>
  \<^verbatim>\<open>k in x\<close> with a string \<open>k\<close>: a key of a dict, an element of a list, a substring of
  a string; a number or a boolean is not iterable.
\<close>

fun py_contains :: "json \<Rightarrow> string \<Rightarrow> exc + bool" where
  "py_contains (JObj kvs) k = Inr (map_of kvs k \<noteq> None)"
| "py_contains (JArr xs) k = Inr (JStr k \<in> set xs)"
| "py_contains (JStr s) k = Inr (is_substring k s)"
| "py_contains _ k = Inl TypeError"

text \<open>\<^verbatim>\<open>len(x)\<close>.\<close>

fun py_len :: "json \<Rightarrow> exc + nat" where
  "py_len (JArr xs) = Inr (length xs)"
| "py_len (JStr s) = Inr (length s)"
| "py_len (JObj kvs) = Inr (length kvs)"
| "py_len _ = Inl TypeError"

text \<open>
  \<^verbatim>\<open>for v in x\<close> (also \<^verbatim>\<open>enumerate(x)\<close>): the elements of a list, the characters of a
  string, the keys of a dict.
\<close>

fun py_iter :: "json \<Rightarrow> exc + json list" where
  "py_iter (JArr xs) = Inr xs"
| "py_iter (JStr s) = Inr (map (\<lambda>c. JStr [c]) s)"
| "py_iter (JObj kvs) = Inr (map (\<lambda>kv. JStr (fst kv)) kvs)"
| "py_iter _ = Inl TypeError"

text \<open>\<^verbatim>\<open>x <= 0\<close>: numbers compare, \<^verbatim>\<open>True\<close> is 1 and \<^verbatim>\<open>False\<close> is 0.\<close>

fun le_zero :: "json \<Rightarrow> exc + bool" where
  "le_zero (JInt i) = Inr (i \<le> 0)"
| "le_zero (JFloat r) = Inr (r \<le> 0)"
| "le_zero (JBool b) = Inr (\<not> b)"
| "le_zero _ = Inl TypeError"

text \<open>
  \<^verbatim>\<open>x * 0.2\<close>, for the exception only (the product is written to a file and never read
  back by the backend). An \<^verbatim>\<open>int\<close> is converted to a double first, which raises
  OverflowError from \<open>2^1024 - 2^970\<close> on (the first integer that rounds to \<open>2^1024\<close>).
\<close>

fun times_float :: "json \<Rightarrow> exc option" where
  "times_float (JInt i) = (if 2 ^ 1024 - 2 ^ 970 \<le> \<bar>i\<bar> then Some OverflowError else None)"
| "times_float (JFloat r) = None"
| "times_float (JBool b) = None"
| "times_float _ = Some TypeError"

subsection \<open>Strings: \<^verbatim>\<open>find\<close>, \<^verbatim>\<open>strip\<close>, \<^verbatim>\<open>split\<close>\<close>

text \<open>\<^verbatim>\<open>s.find(c)\<close> for a one-character \<open>c\<close>: the first index of \<open>c\<close>, or \<open>-1\<close>.\<close>

fun str_find :: "char \<Rightarrow> string \<Rightarrow> int" where
  "str_find c [] = - 1"
| "str_find c (x # xs) =
     (if x = c then 0 else (let i = str_find c xs in if i = - 1 then - 1 else i + 1))"

text \<open>
  \<^verbatim>\<open>str.isspace\<close> on the code points below 256: TAB, LF, VT, FF, CR, FS, GS, RS, US,
  space, NEL and the no-break space.
\<close>

definition isspace :: "char \<Rightarrow> bool" where
  "isspace c = ((of_char c :: nat) \<in> {9, 10, 11, 12, 13, 28, 29, 30, 31, 32, 133, 160})"

text \<open>\<^verbatim>\<open>s.strip()\<close>.\<close>

definition str_strip :: "string \<Rightarrow> string" where
  "str_strip s = rev (dropWhile isspace (rev (dropWhile isspace s)))"

text \<open>\<^verbatim>\<open>s.split(c)\<close> for a one-character separator: never the empty list.\<close>

fun str_split :: "char \<Rightarrow> string \<Rightarrow> string list" where
  "str_split c [] = [[]]"
| "str_split c (x # xs) =
     (if x = c then [] # str_split c xs
      else (case str_split c xs of [] \<Rightarrow> [[x]] | l # ls \<Rightarrow> (x # l) # ls))"

subsection \<open>The world: file system, database, solver runs, console\<close>

text \<open>
  \<^verbatim>\<open>class OptimizationLog\<close> (the usage record). \<open>created_at\<close> is the column default
  \<^verbatim>\<open>datetime.utcnow\<close> at insertion, in microseconds.
\<close>

record optimization_log =
  user_id :: "nat option"
  execution_time_ms :: rat
  cargo_count :: nat
  placed_count :: json
  success :: bool
  created_at :: nat

text \<open>
  A path is a directory and an entry name (\<^verbatim>\<open>os.path.join(temp_dir, name)\<close>); the file
  system maps each existing directory to the set of its entries. File contents are not
  tracked: the backend never reads a file back. The file system itself is taken to work:
  a call fails only for the reason given with its definition (a directory that cannot be
  allocated, a file or directory that is not there, a directory that is not empty).
  \<open>solver_runs\<close> counts the calls of
  \<^verbatim>\<open>subprocess.run\<close>, \<open>console\<close> holds the lines printed
  (\<open>WebhookError e\<close> is \<^verbatim>\<open>f"Webhook error: {str(e)}"\<close>).
\<close>

type_synonym path = "string \<times> string"

datatype line =
    Line string
  | WebhookError exc

record world =
  fs :: "string \<Rightarrow> string set option"
  users :: "user list"
  logs :: "optimization_log list"
  solver_runs :: nat
  console :: "line list"

text \<open>
  What one request meets outside the repository's code: the name \<^verbatim>\<open>tempfile.mkdtemp\<close>
  picks (\<open>None\<close>: no directory can be allocated), the two \<^verbatim>\<open>uuid4().hex[:8]\<close>, how
  the solver process ends, the wall-clock time measured around it, the clock, and
  \<^verbatim>\<open>json.loads\<close> (\<open>None\<close>: it raises JSONDecodeError).
\<close>

datatype proc_result =
    Completed int string string
  | TimedOut
  | LaunchFailed

record env =
  tmp_name :: "string option"
  ship_hex :: string
  cargo_hex :: string
  proc :: proc_result
  elapsed_ms :: rat
  utcnow :: nat
  loads :: "string \<Rightarrow> json option"

text \<open>
  The Flask request: \<^verbatim>\<open>request.json\<close> (it raises on a body that is not JSON), the
  \<^verbatim>\<open>X-API-Key\<close> header, the key of the logged-in user (\<^verbatim>\<open>current_user.id\<close> when
  \<^verbatim>\<open>current_user.is_authenticated\<close>), and \<^verbatim>\<open>request.current_user\<close>, which the API-key
  guard sets.
\<close>

record request =
  request_json :: "exc + json"
  x_api_key :: "string option"
  session_user :: "nat option"
  current_user :: "user option"

text \<open>
  A response is the body and the status, as Flask's \<^verbatim>\<open>return jsonify(...), 400\<close>.
  Bodies: \<^verbatim>\<open>{'error': msg}\<close> with a fixed or concatenated message, \<^verbatim>\<open>{'error': str(e)}\<close>
  and \<^verbatim>\<open>{'error': f'Invalid JSON output: {str(e)}'}\<close> for a caught exception \<open>e\<close>,
  \<^verbatim>\<open>{'error': 'Daily limit exceeded', 'limit': n}\<close>, a JSON value,
  \<^verbatim>\<open>{'valid': b, 'errors': [...]}\<close> and \<^verbatim>\<open>{'success': True}\<close>.

  The messages of the validation endpoint: a fixed text, or one of the three f-strings
  \<^verbatim>\<open>f'Cargo {i+1}: ID required'\<close>,
  \<^verbatim>\<open>f'Cargo {item.get("id", i+1)}: Weight must be positive'\<close>,
  \<^verbatim>\<open>f'Cargo {item.get("id", i+1)}: Invalid dimensions'\<close>, kept with the value they
  format.
\<close>

datatype message =
    Msg string
  | IdRequired nat
  | WeightMustBePositive json
  | InvalidDimensions json

datatype body =
    ErrorMsg string
  | ErrorOf exc
  | InvalidJSONOutput exc
  | DailyLimitExceeded nat
  | Jsonify json
  | ValidationReport bool "message list"
  | SuccessTrue

type_synonym response = "body \<times> nat"

subsection \<open>File system calls\<close>

text \<open>\<^verbatim>\<open>tempfile.mkdtemp()\<close>: a new, empty directory.\<close>

definition mkdtemp :: "env \<Rightarrow> world \<Rightarrow> exc + (string \<times> world)" where
  "mkdtemp e w =
     (case tmp_name e of
        None \<Rightarrow> Inl OSError
      | Some d \<Rightarrow>
          (case fs w d of
             Some S \<Rightarrow> Inl OSError
           | None \<Rightarrow> Inr (d, w\<lparr>fs := (fs w)(d \<mapsto> {})\<rparr>)))"

text \<open>\<^verbatim>\<open>open(filepath, 'w')\<close>: the entry exists afterwards.\<close>

definition open_w :: "path \<Rightarrow> world \<Rightarrow> exc + world" where
  "open_w p w =
     (case fs w (fst p) of
        None \<Rightarrow> Inl OSError
      | Some S \<Rightarrow> Inr (w\<lparr>fs := (fs w)(fst p \<mapsto> insert (snd p) S)\<rparr>))"

text \<open>\<^verbatim>\<open>os.remove(path)\<close>: raises when the file does not exist.\<close>

definition os_remove :: "path \<Rightarrow> world \<Rightarrow> exc + world" where
  "os_remove p w =
     (case fs w (fst p) of
        None \<Rightarrow> Inl OSError
      | Some S \<Rightarrow>
          (if snd p \<in> S then Inr (w\<lparr>fs := (fs w)(fst p \<mapsto> S - {snd p})\<rparr>)
           else Inl OSError))"

text \<open>\<^verbatim>\<open>os.rmdir(path)\<close>: raises when the directory does not exist or is not empty.\<close>

definition os_rmdir :: "string \<Rightarrow> world \<Rightarrow> exc + world" where
  "os_rmdir d w =
     (case fs w d of
        None \<Rightarrow> Inl OSError
      | Some S \<Rightarrow> (if S = {} then Inr (w\<lparr>fs := (fs w)(d := None)\<rparr>) else Inl OSError))"

section \<open>The solver adapter and the dispatch handlers\<close>

subsection \<open>Writing the two artifacts (app.py lines 21--37, app\_prod.py lines 151--167)\<close>

text \<open>
  \<^verbatim>\<open>write_ship_config(ship_data, filepath)\<close>: the file is opened (created) first; then
  each \<^verbatim>\<open>f.write\<close> evaluates its f-string, which raises when a key is missing. The
  default of \<^verbatim>\<open>ship_data.get('lightship_weight', ship_data['max_weight'] * 0.2)\<close> is
  an argument, so it is computed whether or not the key is present.
\<close>

definition ship_config_lines :: "json \<Rightarrow> exc option" where
  "ship_config_lines ship_data =
     (case py_getitem ship_data ''length'' of Inl x \<Rightarrow> Some x | Inr _ \<Rightarrow>
     (case py_getitem ship_data ''width'' of Inl x \<Rightarrow> Some x | Inr _ \<Rightarrow>
     (case py_getitem ship_data ''max_weight'' of Inl x \<Rightarrow> Some x | Inr _ \<Rightarrow>
     (case py_getitem ship_data ''max_weight'' of Inl x \<Rightarrow> Some x | Inr mw \<Rightarrow>
     (case times_float mw of Some x \<Rightarrow> Some x | None \<Rightarrow>
     (case py_get ship_data ''lightship_weight'' JNull of Inl x \<Rightarrow> Some x | Inr _ \<Rightarrow>
     (case py_get ship_data ''lightship_kg'' (JFloat 8) of Inl x \<Rightarrow> Some x | Inr _ \<Rightarrow>
      None)))))))"

definition write_ship_config :: "json \<Rightarrow> path \<Rightarrow> world \<Rightarrow> exc option \<times> world" where
  "write_ship_config ship_data filepath w =
     (case open_w filepath w of
        Inl x \<Rightarrow> (Some x, w)
      | Inr w1 \<Rightarrow> (ship_config_lines ship_data, w1))"

text \<open>
  \<^verbatim>\<open>write_cargo_manifest(cargo_list, filepath)\<close>: the file is opened, the header line
  written, then one line per item:
  \<^verbatim>\<open>cargo['id'], cargo['weight'], cargo['dimensions'][0..2], cargo.get('type', 'standard')\<close>.
\<close>

definition cargo_line :: "json \<Rightarrow> exc option" where
  "cargo_line cargo =
     (case py_getitem cargo ''id'' of Inl x \<Rightarrow> Some x | Inr _ \<Rightarrow>
     (case py_getitem cargo ''weight'' of Inl x \<Rightarrow> Some x | Inr _ \<Rightarrow>
     (case py_getitem cargo ''dimensions'' of Inl x \<Rightarrow> Some x | Inr d0 \<Rightarrow>
     (case py_index d0 0 of Inl x \<Rightarrow> Some x | Inr _ \<Rightarrow>
     (case py_getitem cargo ''dimensions'' of Inl x \<Rightarrow> Some x | Inr d1 \<Rightarrow>
     (case py_index d1 1 of Inl x \<Rightarrow> Some x | Inr _ \<Rightarrow>
     (case py_getitem cargo ''dimensions'' of Inl x \<Rightarrow> Some x | Inr d2 \<Rightarrow>
     (case py_index d2 2 of Inl x \<Rightarrow> Some x | Inr _ \<Rightarrow>
     (case py_get cargo ''type'' (JStr ''standard'') of Inl x \<Rightarrow> Some x | Inr _ \<Rightarrow>
      None)))))))))"

fun cargo_lines :: "json list \<Rightarrow> exc option" where
  "cargo_lines [] = None"
| "cargo_lines (cargo # rest) =
     (case cargo_line cargo of Some x \<Rightarrow> Some x | None \<Rightarrow> cargo_lines rest)"

definition write_cargo_manifest :: "json \<Rightarrow> path \<Rightarrow> world \<Rightarrow> exc option \<times> world" where
  "write_cargo_manifest cargo_list filepath w =
     (case open_w filepath w of
        Inl x \<Rightarrow> (Some x, w)
      | Inr w1 \<Rightarrow>
          (case py_iter cargo_list of
             Inl x \<Rightarrow> (Some x, w1)
           | Inr items \<Rightarrow> (cargo_lines items, w1)))"

subsection \<open>Running the solver and cleaning up\<close>

text \<open>
  \<^verbatim>\<open>subprocess.run([...], capture_output=True, text=True, timeout=30)\<close>: the process
  ends with a return code and its two output streams, or is killed at the timeout
  (TimeoutExpired), or cannot be started. The solver is given the two file names and is
  taken not to create or delete entries of the workspace itself.
\<close>

definition subprocess_run :: "env \<Rightarrow> world \<Rightarrow> (exc + (int \<times> string \<times> string)) \<times> world" where
  "subprocess_run e w =
     (let w1 = w\<lparr>solver_runs := solver_runs w + 1\<rparr> in
      case proc e of
        Completed returncode out err \<Rightarrow> (Inr (returncode, out, err), w1)
      | TimedOut \<Rightarrow> (Inl TimeoutExpired, w1)
      | LaunchFailed \<Rightarrow> (Inl OSError, w1))"

text \<open>
  The \<^verbatim>\<open>finally\<close> block of both backends:
  \<^verbatim>\<open>try: os.remove(ship_file); os.remove(cargo_file); os.rmdir(temp_dir)\<close>
  \<^verbatim>\<open>except: pass\<close>. The first call that raises ends the block.
\<close>

definition cleanup :: "path \<Rightarrow> path \<Rightarrow> string \<Rightarrow> world \<Rightarrow> world" where
  "cleanup ship_file cargo_file temp_dir w =
     (case os_remove ship_file w of Inl _ \<Rightarrow> w | Inr w1 \<Rightarrow>
     (case os_remove cargo_file w1 of Inl _ \<Rightarrow> w1 | Inr w2 \<Rightarrow>
     (case os_rmdir temp_dir w2 of Inl _ \<Rightarrow> w2 | Inr w3 \<Rightarrow> w3)))"

definition ship_name :: "env \<Rightarrow> string" where
  "ship_name e = ''ship_'' @ ship_hex e @ ''.cfg''"

definition cargo_name :: "env \<Rightarrow> string" where
  "cargo_name e = ''cargo_'' @ cargo_hex e @ ''.txt''"

text \<open>\<^verbatim>\<open>result.stderr.strip().split('\n') if result.stderr else []\<close>.\<close>

definition warnings :: "string \<Rightarrow> json" where
  "warnings err =
     JArr (map JStr (if err \<noteq> [] then str_split (CHR 0x0A) (str_strip err) else []))"

subsection \<open>\<^verbatim>\<open>run_optimization\<close> (app\_prod.py lines 169--214)\<close>

text \<open>
  The body of the \<^verbatim>\<open>try\<close>. The value returned is the triple
  \<^verbatim>\<open>(result, execution_time, error)\<close>, with \<open>JNull\<close> for \<^verbatim>\<open>None\<close> in the first
  component.
\<close>

definition run_optimization_try ::
  "env \<Rightarrow> json \<Rightarrow> json \<Rightarrow> path \<Rightarrow> path \<Rightarrow> world \<Rightarrow>
     (exc + (json \<times> rat \<times> string option)) \<times> world" where
  "run_optimization_try e ship_data cargo_list ship_file cargo_file w =
     (case write_ship_config ship_data ship_file w of
        (Some x, w1) \<Rightarrow> (Inl x, w1)
      | (None, w1) \<Rightarrow>
     (case write_cargo_manifest cargo_list cargo_file w1 of
        (Some x, w2) \<Rightarrow> (Inl x, w2)
      | (None, w2) \<Rightarrow>
     (case subprocess_run e w2 of
        (Inl x, w3) \<Rightarrow> (Inl x, w3)
      | (Inr (returncode, out, err), w3) \<Rightarrow>
          (if returncode \<noteq> 0 then (Inr (JNull, elapsed_ms e, Some err), w3)
           else
             let json_start = str_find (CHR ''{'') out in
             if json_start = - 1 then (Inr (JNull, elapsed_ms e, Some ''No JSON output''), w3)
             else
               (case loads e (drop (nat json_start) out) of
                  None \<Rightarrow> (Inl JSONDecodeError, w3)
                | Some response_data \<Rightarrow>
                    (case py_setitem response_data ''execution''
                            (JObj [(''success'', JBool True),
                                   (''execution_time_ms'', JFloat (elapsed_ms e)),
                                   (''warnings'', warnings err)]) of
                       Inl x \<Rightarrow> (Inl x, w3)
                     | Inr response_data' \<Rightarrow>
                         (Inr (response_data', elapsed_ms e, None), w3)))))))"

definition run_optimization ::
  "env \<Rightarrow> json \<Rightarrow> json \<Rightarrow> world \<Rightarrow> (exc + (json \<times> rat \<times> string option)) \<times> world" where
  "run_optimization e ship_data cargo_list w =
     (case mkdtemp e w of
        Inl x \<Rightarrow> (Inl x, w)
      | Inr (temp_dir, w1) \<Rightarrow>
          (let ship_file = (temp_dir, ship_name e);
               cargo_file = (temp_dir, cargo_name e);
               (r, w2) = run_optimization_try e ship_data cargo_list ship_file cargo_file w1
           in (r, cleanup ship_file cargo_file temp_dir w2)))"

subsection \<open>\<^verbatim>\<open>optimize\<close> of the production backend (app\_prod.py lines 458--489)\<close>

text \<open>
  The route is decorated with the per-address rate limiter only
  (\<^verbatim>\<open>@limiter.limit("30 per minute")\<close>), which is outside this model: the handler below
  is what runs for a request the limiter admits. The whole body is inside
  \<^verbatim>\<open>try ... except Exception as e: return jsonify({'error': str(e)}), 500\<close>.
  \<^verbatim>\<open>if error:\<close> is Python truthiness: \<^verbatim>\<open>None\<close> and the empty string count as no
  error. The commit of the usage record is taken to succeed.
\<close>

definition missing_data :: response where
  "missing_data = (ErrorMsg ''Missing ship or cargo data'', 400)"

definition optimize :: "env \<Rightarrow> request \<Rightarrow> world \<Rightarrow> response \<times> world" where
  "optimize e rq w =
     (case request_json rq of Inl x \<Rightarrow> ((ErrorOf x, 500), w) | Inr data \<Rightarrow>
      if \<not> truthy data then (missing_data, w) else
     (case py_contains data ''ship'' of Inl x \<Rightarrow> ((ErrorOf x, 500), w) | Inr has_ship \<Rightarrow>
      if \<not> has_ship then (missing_data, w) else
     (case py_contains data ''cargo'' of Inl x \<Rightarrow> ((ErrorOf x, 500), w) | Inr has_cargo \<Rightarrow>
      if \<not> has_cargo then (missing_data, w) else
     (case py_getitem data ''ship'' of Inl x \<Rightarrow> ((ErrorOf x, 500), w) | Inr ship \<Rightarrow>
     (case py_getitem data ''cargo'' of Inl x \<Rightarrow> ((ErrorOf x, 500), w) | Inr cargo \<Rightarrow>
     (case run_optimization e ship cargo w of
        (Inl x, w1) \<Rightarrow> ((ErrorOf x, 500), w1)
      | (Inr (result, exec_time, error), w1) \<Rightarrow>
          (case error of
             Some (c # msg) \<Rightarrow> ((ErrorMsg (''Optimization failed: '' @ c # msg), 500), w1)
           | _ \<Rightarrow>
             (case session_user rq of
                None \<Rightarrow> ((Jsonify result, 200), w1)
              | Some user \<Rightarrow>
                  (case py_len cargo of Inl x \<Rightarrow> ((ErrorOf x, 500), w1) | Inr n \<Rightarrow>
                  (case py_getitem result ''analysis'' of
                     Inl x \<Rightarrow> ((ErrorOf x, 500), w1) | Inr analysis \<Rightarrow>
                  (case py_getitem analysis ''placed_count'' of
                     Inl x \<Rightarrow> ((ErrorOf x, 500), w1) | Inr placed \<Rightarrow>
                   ((Jsonify result, 200),
                    w1\<lparr>logs := logs w1 @
                      [\<lparr>user_id = Some user, execution_time_ms = exec_time,
                        cargo_count = n, placed_count = placed, success = True,
                        created_at = utcnow e\<rparr>]\<rparr>))))))))))))"

subsection \<open>\<^verbatim>\<open>optimize\<close> of the basic backend (app.py lines 44--112)\<close>

text \<open>
  The three \<^verbatim>\<open>except\<close> clauses of the handler, in order: TimeoutExpired gives 408,
  JSONDecodeError and every other exception give 500.
\<close>

definition app_except :: "exc \<Rightarrow> response" where
  "app_except x =
     (if x = TimeoutExpired then (ErrorMsg ''Optimization timeout (>30s)'', 408)
      else if x = JSONDecodeError then (InvalidJSONOutput x, 500)
      else (ErrorOf x, 500))"

definition app_optimize_try ::
  "env \<Rightarrow> json \<Rightarrow> path \<Rightarrow> path \<Rightarrow> world \<Rightarrow> (exc + response) \<times> world" where
  "app_optimize_try e data ship_file cargo_file w =
     (case py_getitem data ''ship'' of Inl x \<Rightarrow> (Inl x, w) | Inr ship \<Rightarrow>
     (case write_ship_config ship ship_file w of
        (Some x, w1) \<Rightarrow> (Inl x, w1)
      | (None, w1) \<Rightarrow>
     (case py_getitem data ''cargo'' of Inl x \<Rightarrow> (Inl x, w1) | Inr cargo \<Rightarrow>
     (case write_cargo_manifest cargo cargo_file w1 of
        (Some x, w2) \<Rightarrow> (Inl x, w2)
      | (None, w2) \<Rightarrow>
     (case subprocess_run e w2 of
        (Inl x, w3) \<Rightarrow> (Inl x, w3)
      | (Inr (returncode, out, err), w3) \<Rightarrow>
          (if returncode \<noteq> 0
           then (Inr (ErrorMsg (''Optimization failed: '' @ err), 500), w3)
           else
             let json_start = str_find (CHR ''{'') out in
             if json_start = - 1
             then (Inr (ErrorMsg ''No JSON output from optimizer'', 500), w3)
             else
               (case loads e (drop (nat json_start) out) of
                  None \<Rightarrow> (Inl JSONDecodeError, w3)
                | Some response_data \<Rightarrow>
                    (case py_setitem response_data ''execution''
                            (JObj [(''success'', JBool True),
                                   (''warnings'', warnings err)]) of
                       Inl x \<Rightarrow> (Inl x, w3)
                     | Inr response_data' \<Rightarrow>
                         (Inr (Jsonify response_data', 200), w3)))))))))"

definition app_optimize :: "env \<Rightarrow> request \<Rightarrow> world \<Rightarrow> response \<times> world" where
  "app_optimize e rq w =
     (case request_json rq of Inl x \<Rightarrow> (app_except x, w) | Inr data \<Rightarrow>
      if \<not> truthy data then (missing_data, w) else
     (case py_contains data ''ship'' of Inl x \<Rightarrow> (app_except x, w) | Inr has_ship \<Rightarrow>
      if \<not> has_ship then (missing_data, w) else
     (case py_contains data ''cargo'' of Inl x \<Rightarrow> (app_except x, w) | Inr has_cargo \<Rightarrow>
      if \<not> has_cargo then (missing_data, w) else
     (case mkdtemp e w of
        Inl x \<Rightarrow> (app_except x, w)
      | Inr (temp_dir, w1) \<Rightarrow>
          (let ship_file = (temp_dir, ship_name e);
               cargo_file = (temp_dir, cargo_name e);
               (r, w2) = app_optimize_try e data ship_file cargo_file w1;
               w3 = cleanup ship_file cargo_file temp_dir w2
           in (case r of Inl x \<Rightarrow> (app_except x, w3) | Inr resp \<Rightarrow> (resp, w3)))))))"

subsection \<open>\<^verbatim>\<open>validate\<close> (app.py lines 188--224)\<close>

text \<open>\<^verbatim>\<open>any(d <= 0 for d in dims)\<close>: stops at the first true comparison.\<close>

fun any_le_zero :: "json list \<Rightarrow> exc + bool" where
  "any_le_zero [] = Inr False"
| "any_le_zero (d # ds) =
     (case le_zero d of
        Inl x \<Rightarrow> Inl x
      | Inr b \<Rightarrow> (if b then Inr True else any_le_zero ds))"

text \<open>\<^verbatim>\<open>len(dims) != 3 or any(d <= 0 for d in dims)\<close>.\<close>

definition dims_invalid :: "json \<Rightarrow> exc + bool" where
  "dims_invalid dims =
     (case py_len dims of Inl x \<Rightarrow> Inl x | Inr n \<Rightarrow>
      if n \<noteq> 3 then Inr True else
     (case py_iter dims of Inl x \<Rightarrow> Inl x | Inr ds \<Rightarrow> any_le_zero ds))"

text \<open>
  One round of \<^verbatim>\<open>for i, item in enumerate(cargo)\<close>: the messages it appends.
  \<^verbatim>\<open>item.get\<close> raises AttributeError unless the item is a dict.
\<close>

fun validate_item :: "nat \<Rightarrow> json \<Rightarrow> exc + message list" where
  "validate_item i (JObj item) =
     (let errors1 = (if \<not> truthy (dict_get item ''id'' JNull) then [IdRequired (i + 1)] else [])
      in
     (case le_zero (dict_get item ''weight'' (JInt 0)) of Inl x \<Rightarrow> Inl x | Inr weight_bad \<Rightarrow>
      let errors2 =
        (if weight_bad then [WeightMustBePositive (dict_get item ''id'' (JInt (int i + 1)))]
         else [])
      in
     (case dims_invalid (dict_get item ''dimensions'' (JArr [])) of
        Inl x \<Rightarrow> Inl x
      | Inr dims_bad \<Rightarrow>
          Inr (errors1 @ errors2 @
            (if dims_bad then [InvalidDimensions (dict_get item ''id'' (JInt (int i + 1)))]
             else [])))))"
| "validate_item i _ = Inl AttributeError"

fun validate_items :: "nat \<Rightarrow> json list \<Rightarrow> exc + message list" where
  "validate_items i [] = Inr []"
| "validate_items i (item # rest) =
     (case validate_item i item of Inl x \<Rightarrow> Inl x | Inr errors \<Rightarrow>
     (case validate_items (i + 1) rest of Inl x \<Rightarrow> Inl x | Inr errors' \<Rightarrow>
      Inr (errors @ errors')))"

text \<open>The list \<^verbatim>\<open>errors\<close> at the \<^verbatim>\<open>return\<close>, or the exception raised on the way.\<close>

definition validate_errors :: "json \<Rightarrow> exc + message list" where
  "validate_errors data =
     (case py_get data ''ship'' (JObj []) of Inl x \<Rightarrow> Inl x | Inr ship \<Rightarrow>
     (case py_get ship ''length'' (JInt 0) of Inl x \<Rightarrow> Inl x | Inr len \<Rightarrow>
     (case le_zero len of Inl x \<Rightarrow> Inl x | Inr length_bad \<Rightarrow>
     (case py_get ship ''width'' (JInt 0) of Inl x \<Rightarrow> Inl x | Inr wid \<Rightarrow>
     (case le_zero wid of Inl x \<Rightarrow> Inl x | Inr width_bad \<Rightarrow>
     (case py_get ship ''max_weight'' (JInt 0) of Inl x \<Rightarrow> Inl x | Inr mw \<Rightarrow>
     (case le_zero mw of Inl x \<Rightarrow> Inl x | Inr max_weight_bad \<Rightarrow>
     (case py_get data ''cargo'' (JArr []) of Inl x \<Rightarrow> Inl x | Inr cargo \<Rightarrow>
     (case py_iter cargo of Inl x \<Rightarrow> Inl x | Inr items \<Rightarrow>
     (case validate_items 0 items of Inl x \<Rightarrow> Inl x | Inr item_errors \<Rightarrow>
      Inr ((if length_bad then [Msg ''Ship length must be positive''] else []) @
           (if width_bad then [Msg ''Ship width must be positive''] else []) @
           (if max_weight_bad then [Msg ''Ship max weight must be positive''] else []) @
           (if \<not> truthy cargo then [Msg ''At least one cargo item required''] else []) @
           item_errors)))))))))))"

definition validate :: "request \<Rightarrow> world \<Rightarrow> response \<times> world" where
  "validate rq w =
     (case request_json rq of Inl x \<Rightarrow> ((ErrorOf x, 500), w) | Inr data \<Rightarrow>
     (case validate_errors data of
        Inl x \<Rightarrow> ((ErrorOf x, 500), w)
      | Inr errors \<Rightarrow> ((ValidationReport (length errors = 0) errors, 200), w)))"

section \<open>Entitlement guard and billing events\<close>

subsection \<open>\<^verbatim>\<open>api_key_required\<close> (app\_prod.py lines 123--147)\<close>

text \<open>
  \<^verbatim>\<open>datetime.utcnow().replace(hour=0, minute=0, second=0, microsecond=0)\<close>, with time
  in microseconds.
\<close>

definition today_start :: "nat \<Rightarrow> nat" where
  "today_start now = now - now mod 86400000000"

definition today_count :: "env \<Rightarrow> user \<Rightarrow> world \<Rightarrow> nat" where
  "today_count e usr w =
     length (filter (\<lambda>l. user_id l = Some (uid usr) \<and> today_start (utcnow e) \<le> created_at l)
       (logs w))"

text \<open>The decorator: \<open>f\<close> is the handler it wraps.\<close>

definition api_key_required ::
  "(request \<Rightarrow> world \<Rightarrow> response \<times> world) \<Rightarrow> env \<Rightarrow> request \<Rightarrow> world \<Rightarrow> response \<times> world" where
  "api_key_required f e rq w =
     (case x_api_key rq of
        None \<Rightarrow> ((ErrorMsg ''API key required'', 401), w)
      | Some [] \<Rightarrow> ((ErrorMsg ''API key required'', 401), w)
      | Some key \<Rightarrow>
          (case find (\<lambda>u. api_key u = Some key) (users w) of
             None \<Rightarrow> ((ErrorMsg ''Invalid API key'', 401), w)
           | Some usr \<Rightarrow>
               (if daily_limit usr \<le> today_count e usr w
                then ((DailyLimitExceeded (daily_limit usr), 429), w)
                else f (rq\<lparr>current_user := Some usr\<rparr>) w)))"

subsection \<open>Webhook handlers (stripe\_integration.py lines 163--302)\<close>

text \<open>
  The object of a verified Stripe event, read with \<^verbatim>\<open>.get\<close>: an absent or null field
  is \<open>None\<close>. \<open>object_id\<close> is the field \<^verbatim>\<open>id\<close>. For \<^verbatim>\<open>metadata\<close> the two differ,
  since the code reads it with a default and calls \<^verbatim>\<open>.get\<close> on the result: the key is
  absent, or its value is null, or it is a dict of strings.
\<close>

datatype metadata_field =
    NoMetadata
  | NullMetadata
  | Metadata "(string \<times> string) list"

record stripe_object =
  customer_email :: "string option"
  customer :: "string option"
  subscription :: "string option"
  object_id :: "string option"
  status :: "string option"
  cancel_at_period_end :: "bool option"
  metadata :: metadata_field

text \<open>\<^verbatim>\<open>str(x)\<close> inside an f-string, for a string or \<^verbatim>\<open>None\<close>.\<close>

definition str_of :: "string option \<Rightarrow> string" where
  "str_of x = (case x of None \<Rightarrow> ''None'' | Some s \<Rightarrow> s)"

definition print :: "string \<Rightarrow> world \<Rightarrow> world" where
  "print l w = w\<lparr>console := console w @ [Line l]\<rparr>"

text \<open>
  The row \<^verbatim>\<open>User.query.filter_by(...).first()\<close> returns is the first of the table that
  matches; the handler's assignments change that row. A filter on \<^verbatim>\<open>None\<close> is SQL's
  \<^verbatim>\<open>IS NULL\<close>: an event without a customer matches a user without one.
\<close>

fun update_first :: "('a \<Rightarrow> bool) \<Rightarrow> ('a \<Rightarrow> 'a) \<Rightarrow> 'a list \<Rightarrow> 'a list" where
  "update_first P f [] = []"
| "update_first P f (x # xs) = (if P x then f x # xs else x # update_first P f xs)"

text \<open>
  \<^verbatim>\<open>db.session.commit()\<close>: the columns \<^verbatim>\<open>stripe_customer_id\<close> and
  \<^verbatim>\<open>stripe_subscription_id\<close> are declared \<^verbatim>\<open>unique=True\<close>, so the commit raises
  IntegrityError, and nothing is stored, when the table written would hold a value of
  one of them twice (nulls do not count).
\<close>

definition unique_column :: "(user \<Rightarrow> string option) \<Rightarrow> user list \<Rightarrow> bool" where
  "unique_column col us = distinct (filter (\<lambda>v. v \<noteq> None) (map col us))"

definition commit :: "user list \<Rightarrow> world \<Rightarrow> exc + world" where
  "commit us w =
     (if unique_column stripe_customer_id us \<and> unique_column stripe_subscription_id us
      then Inr (w\<lparr>users := us\<rparr>) else Inl IntegrityError)"

text \<open>
  \<^verbatim>\<open>session.get('metadata', {}).get('tier', 'pro')\<close>: the default \<^verbatim>\<open>{}\<close> stands in
  for an absent key only; on a null value the second \<^verbatim>\<open>.get\<close> is called on
  \<^verbatim>\<open>None\<close> and raises AttributeError.
\<close>

definition event_tier :: "stripe_object \<Rightarrow> exc + string" where
  "event_tier session =
     (case metadata session of
        NoMetadata \<Rightarrow> Inr (case map_of [] ''tier'' of None \<Rightarrow> ''pro'' | Some t \<Rightarrow> t)
      | NullMetadata \<Rightarrow> Inl AttributeError
      | Metadata kvs \<Rightarrow> Inr (case map_of kvs ''tier'' of None \<Rightarrow> ''pro'' | Some t \<Rightarrow> t))"

text \<open>
  \<^verbatim>\<open>handle_checkout_completed\<close>: the four fields are read first (line 176--179), so a
  null \<^verbatim>\<open>metadata\<close> raises before the user is looked up.
\<close>

definition handle_checkout_completed :: "stripe_object \<Rightarrow> world \<Rightarrow> exc option \<times> world" where
  "handle_checkout_completed session w =
     (case event_tier session of
        Inl x \<Rightarrow> (Some x, w)
      | Inr tier \<Rightarrow>
     (let by_email = (\<lambda>u. Some (email u) = customer_email session) in
      case find by_email (users w) of
        None \<Rightarrow>
          (None, print (''Warning: User not found for email '' @ str_of (customer_email session)) w)
      | Some usr \<Rightarrow>
          (case commit
                  (update_first by_email
                     (\<lambda>u. u\<lparr>subscription_tier := tier,
                            stripe_customer_id := customer session,
                            stripe_subscription_id := subscription session,
                            subscription_status := Some ''active''\<rparr>)
                     (users w)) w of
             Inl x \<Rightarrow> (Some x, w)
           | Inr w1 \<Rightarrow>
               (None, print (''User '' @ email usr @ '' upgraded to '' @ tier) w1))))"

definition handle_invoice_paid :: "stripe_object \<Rightarrow> world \<Rightarrow> exc option \<times> world" where
  "handle_invoice_paid invoice w =
     (let by_customer = (\<lambda>u. stripe_customer_id u = customer invoice) in
      case find by_customer (users w) of
        None \<Rightarrow>
          (None, print (''Warning: User not found for customer '' @ str_of (customer invoice)) w)
      | Some usr \<Rightarrow>
          (case commit
                  (update_first by_customer
                     (\<lambda>u. u\<lparr>subscription_status := Some ''active'',
                            stripe_subscription_id := subscription invoice\<rparr>)
                     (users w)) w of
             Inl x \<Rightarrow> (Some x, w)
           | Inr w1 \<Rightarrow> (None, print (''Invoice paid for user '' @ email usr) w1)))"

definition handle_invoice_failed :: "stripe_object \<Rightarrow> world \<Rightarrow> exc option \<times> world" where
  "handle_invoice_failed invoice w =
     (let by_customer = (\<lambda>u. stripe_customer_id u = customer invoice) in
      case find by_customer (users w) of
        None \<Rightarrow>
          (None, print (''Warning: User not found for customer '' @ str_of (customer invoice)) w)
      | Some usr \<Rightarrow>
          (case commit
                  (update_first by_customer
                     (\<lambda>u. u\<lparr>subscription_status := Some ''past_due''\<rparr>)
                     (users w)) w of
             Inl x \<Rightarrow> (Some x, w)
           | Inr w1 \<Rightarrow> (None, print (''Payment failed for user '' @ email usr) w1)))"

definition handle_subscription_updated :: "stripe_object \<Rightarrow> world \<Rightarrow> exc option \<times> world" where
  "handle_subscription_updated sub w =
     (let by_customer = (\<lambda>u. stripe_customer_id u = customer sub) in
      case find by_customer (users w) of
        None \<Rightarrow>
          (None, print (''Warning: User not found for customer '' @ str_of (customer sub)) w)
      | Some usr \<Rightarrow>
          (case commit
                  (update_first by_customer
                     (\<lambda>u. u\<lparr>subscription_status :=
                              (if cancel_at_period_end sub = Some True then Some ''canceling''
                               else status sub),
                            stripe_subscription_id := object_id sub\<rparr>)
                     (users w)) w of
             Inl x \<Rightarrow> (Some x, w)
           | Inr w1 \<Rightarrow>
               (None,
                print (''Subscription updated for user '' @ email usr @ '': '' @
                         str_of (status sub)) w1)))"

definition handle_subscription_deleted :: "stripe_object \<Rightarrow> world \<Rightarrow> exc option \<times> world" where
  "handle_subscription_deleted sub w =
     (let by_customer = (\<lambda>u. stripe_customer_id u = customer sub) in
      case find by_customer (users w) of
        None \<Rightarrow>
          (None, print (''Warning: User not found for customer '' @ str_of (customer sub)) w)
      | Some usr \<Rightarrow>
          (case commit
                  (update_first by_customer
                     (\<lambda>u. u\<lparr>subscription_tier := ''free'',
                            subscription_status := Some ''canceled'',
                            stripe_subscription_id := None\<rparr>)
                     (users w)) w of
             Inl x \<Rightarrow> (Some x, w)
           | Inr w1 \<Rightarrow>
               (None,
                print (''Subscription cancelled for user '' @ email usr @
                         '', downgraded to free tier'') w1)))"

subsection \<open>\<^verbatim>\<open>stripe_webhook\<close> (app\_prod.py lines 766--800)\<close>

text \<open>
  \<open>constructed\<close> is what \<^verbatim>\<open>StripeService.construct_webhook_event(payload, signature)\<close>
  gives: the exception it raises on a bad payload or signature, or the verified event as
  \<^verbatim>\<open>(event['type'], event['data']['object'])\<close>.
\<close>

definition stripe_webhook ::
  "exc + (string \<times> stripe_object) \<Rightarrow> world \<Rightarrow> response \<times> world" where
  "stripe_webhook constructed w =
     (case constructed of
        Inl x \<Rightarrow> ((ErrorOf x, 400), w\<lparr>console := console w @ [WebhookError x]\<rparr>)
      | Inr (event_type, event_data) \<Rightarrow>
          (let (raised, w1) =
             (if event_type = ''checkout.session.completed''
                then handle_checkout_completed event_data w
              else if event_type = ''invoice.payment_succeeded''
                then handle_invoice_paid event_data w
              else if event_type = ''invoice.payment_failed''
                then handle_invoice_failed event_data w
              else if event_type = ''customer.subscription.updated''
                then handle_subscription_updated event_data w
              else if event_type = ''customer.subscription.deleted''
                then handle_subscription_deleted event_data w
              else (None, w))
           in (case raised of
                 Some x \<Rightarrow> ((ErrorOf x, 400), w1\<lparr>console := console w1 @ [WebhookError x]\<rparr>)
               | None \<Rightarrow> ((SuccessTrue, 200), w1))))"

section \<open>Reference definitions and sample values\<close>

text \<open>
  \<^verbatim>\<open>'\n'.join(lines)\<close>: the text a list of lines stands for. It is used to say what
  the warnings attached to a result are.
\<close>

fun join_lines :: "string list \<Rightarrow> string" where
  "join_lines [] = []"
| "join_lines [l] = l"
| "join_lines (l # l' # ls) = l @ CHR 0x0A # join_lines (l' # ls)"

text \<open>
  A well-formed request (the first training challenge, one container), a solver output
  with a line of text before the structured payload, and \<^verbatim>\<open>json.loads\<close> on that
  payload (\<open>CHR 0x22\<close> is the double quote).
\<close>

definition demo_ship :: json where
  "demo_ship = JObj [(''length'', JInt 100), (''width'', JInt 20), (''max_weight'', JInt 10000000)]"

definition demo_item :: json where
  "demo_item =
     JObj [(''id'', JStr ''Container1''), (''weight'', JInt 250000),
           (''dimensions'', JArr [JInt 12, JFloat (12 / 5), JFloat (13 / 5)]),
           (''type'', JStr ''standard'')]"

definition demo_data :: json where
  "demo_data = JObj [(''ship'', demo_ship), (''cargo'', JArr [demo_item])]"

definition demo_payload :: string where
  "demo_payload =
     ''{'' @ [CHR 0x22] @ ''analysis'' @ [CHR 0x22] @ '': {'' @ [CHR 0x22] @ ''placed_count'' @
     [CHR 0x22] @ '': 1}}''"

definition demo_plan :: "(string \<times> json) list" where
  "demo_plan = [(''analysis'', JObj [(''placed_count'', JInt 1)])]"

definition demo_loads :: "string \<Rightarrow> json option" where
  "demo_loads s = (if s = demo_payload then Some (JObj demo_plan) else None)"

definition demo_env :: env where
  "demo_env =
     \<lparr>tmp_name = Some ''/tmp/tmpk3v9x2aq'', ship_hex = ''0a1b2c3d'', cargo_hex = ''4e5f6a7b'',
      proc = Completed 0 (''Placing 1 item '' @ demo_payload) ''Warning: trim'',
      elapsed_ms = 12, utcnow = 1762250000000000, loads = demo_loads\<rparr>"

definition demo_user :: user where
  "demo_user =
     \<lparr>uid = 1, email = ''ana@example.org'', username = ''ana'', subscription_tier = ''free'',
      subscription_status = Some ''active'', stripe_customer_id = None,
      stripe_subscription_id = None, api_key = Some ''k1''\<rparr>"

definition demo_world :: world where
  "demo_world =
     \<lparr>fs = Map.empty, users = [demo_user], logs = [], solver_runs = 0, console = []\<rparr>"

definition demo_request :: request where
  "demo_request =
     \<lparr>request_json = Inr demo_data, x_api_key = None, session_user = Some 1,
      current_user = None\<rparr>"

text \<open>
  The request invariant in the words of the specification: a value is positive when it is
  a number above zero; a cargo item is malformed when its weight is not positive, or its
  dimensions are not a list of exactly three positive entries.
\<close>

fun positive :: "json \<Rightarrow> bool" where
  "positive (JInt i) = (0 < i)"
| "positive (JFloat r) = (0 < r)"
| "positive _ = False"

definition three_positive :: "json \<Rightarrow> bool" where
  "three_positive dims =
     (case dims of JArr ds \<Rightarrow> length ds = 3 \<and> list_all positive ds | _ \<Rightarrow> False)"


text \<open>
  A request with one item of weight \<open>-5\<close>; a usage record of the sample user made earlier
  on the day of \<open>utcnow demo_env\<close>, and a world in which that user has ten of them.
\<close>

definition bad_item :: json where
  "bad_item =
     JObj [(''id'', JStr ''Container1''), (''weight'', JInt (- 5)),
           (''dimensions'', JArr [JInt 12, JFloat (12 / 5), JFloat (13 / 5)]),
           (''type'', JStr ''standard'')]"

definition bad_request :: request where
  "bad_request =
     \<lparr>request_json = Inr (JObj [(''ship'', demo_ship), (''cargo'', JArr [bad_item])]),
      x_api_key = None, session_user = Some 1, current_user = None\<rparr>"

definition demo_log :: optimization_log where
  "demo_log =
     \<lparr>user_id = Some 1, execution_time_ms = 9, cargo_count = 1, placed_count = JInt 1,
      success = True, created_at = 1762240000000000\<rparr>"

definition limit_world :: world where
  "limit_world =
     demo_world\<lparr>logs := [demo_log, demo_log, demo_log, demo_log, demo_log,
                         demo_log, demo_log, demo_log, demo_log, demo_log]\<rparr>"

text \<open>
  A paying user beside the sample user, and three events: the deletion of that user's
  subscription, a later retry of an invoice of the same customer, and the checkout of the
  sample user, whose customer reference \<open>cus_9\<close> is not stored anywhere yet.
\<close>

definition paid_user :: user where
  "paid_user =
     \<lparr>uid = 2, email = ''bo@example.org'', username = ''bo'', subscription_tier = ''pro'',
      subscription_status = Some ''active'', stripe_customer_id = Some ''cus_1'',
      stripe_subscription_id = Some ''sub_1'', api_key = None\<rparr>"

definition billing_world :: world where
  "billing_world = demo_world\<lparr>users := [demo_user, paid_user]\<rparr>"

definition deleted_event :: stripe_object where
  "deleted_event =
     \<lparr>customer_email = None, customer = Some ''cus_1'', subscription = None,
      object_id = Some ''sub_1'', status = Some ''canceled'',
      cancel_at_period_end = Some False, metadata = NoMetadata\<rparr>"

definition invoice_event :: stripe_object where
  "invoice_event =
     \<lparr>customer_email = Some ''bo@example.org'', customer = Some ''cus_1'',
      subscription = Some ''sub_1'', object_id = Some ''in_1'', status = Some ''paid'',
      cancel_at_period_end = None, metadata = NoMetadata\<rparr>"


text \<open>
  The conditions of the validation report, in the words of the specification: the ship's
  length, width and maximal weight are positive, the cargo list is not empty, and every
  cargo item has a non-empty id, a positive weight and dimensions that are exactly three
  positive entries. \<open>field x k\<close> is the value of key \<open>k\<close> (\<open>JNull\<close> when there is
  none); \<open>conditions\<close> lists the truth value of every condition, \<open>violations\<close> counts
  the false ones.
\<close>

fun field :: "json \<Rightarrow> string \<Rightarrow> json" where
  "field (JObj kvs) k = dict_get kvs k JNull"
| "field _ k = JNull"

definition nonempty_id :: "json \<Rightarrow> bool" where
  "nonempty_id v = (case v of JStr s \<Rightarrow> s \<noteq> [] | _ \<Rightarrow> False)"

definition item_conditions :: "json \<Rightarrow> bool list" where
  "item_conditions item =
     [nonempty_id (field item ''id''), positive (field item ''weight''),
      three_positive (field item ''dimensions'')]"

definition cargo_items :: "json \<Rightarrow> json list" where
  "cargo_items data = (case field data ''cargo'' of JArr items \<Rightarrow> items | _ \<Rightarrow> [])"

definition conditions :: "json \<Rightarrow> bool list" where
  "conditions data =
     [positive (field (field data ''ship'') ''length''),
      positive (field (field data ''ship'') ''width''),
      positive (field (field data ''ship'') ''max_weight''),
      cargo_items data \<noteq> []] @
     concat (map item_conditions (cargo_items data))"

definition spec_valid :: "json \<Rightarrow> bool" where
  "spec_valid data = list_all (\<lambda>c. c) (conditions data)"

definition violations :: "json \<Rightarrow> nat" where
  "violations data = length (filter Not (conditions data))"

text \<open>
  The shape of a request body the validation endpoint is written for: an object; \<open>ship\<close>,
  when present, an object whose \<open>length\<close>, \<open>width\<close> and \<open>max_weight\<close>, when present,
  are numbers; \<open>cargo\<close>, when present, a list of objects whose \<open>id\<close>, when present, is
  a string, whose \<open>weight\<close>, when present, is a number, and whose \<open>dimensions\<close>, when
  present, are a list of numbers.
\<close>

fun is_number :: "json \<Rightarrow> bool" where
  "is_number (JInt i) = True"
| "is_number (JFloat r) = True"
| "is_number _ = False"

definition absent_or :: "(json \<Rightarrow> bool) \<Rightarrow> (string \<times> json) list \<Rightarrow> string \<Rightarrow> bool" where
  "absent_or ok kvs k = (case map_of kvs k of None \<Rightarrow> True | Some v \<Rightarrow> ok v)"

definition well_typed_ship :: "json \<Rightarrow> bool" where
  "well_typed_ship ship =
     (case ship of
        JObj kvs \<Rightarrow>
          absent_or is_number kvs ''length'' \<and> absent_or is_number kvs ''width'' \<and>
          absent_or is_number kvs ''max_weight''
      | _ \<Rightarrow> False)"

definition well_typed_item :: "json \<Rightarrow> bool" where
  "well_typed_item item =
     (case item of
        JObj kvs \<Rightarrow>
          absent_or (\<lambda>v. case v of JStr s \<Rightarrow> True | _ \<Rightarrow> False) kvs ''id'' \<and>
          absent_or is_number kvs ''weight'' \<and>
          absent_or (\<lambda>v. case v of JArr ds \<Rightarrow> list_all is_number ds | _ \<Rightarrow> False) kvs
            ''dimensions''
      | _ \<Rightarrow> False)"

definition well_typed :: "json \<Rightarrow> bool" where
  "well_typed data =
     (case data of
        JObj kvs \<Rightarrow>
          absent_or well_typed_ship kvs ''ship'' \<and>
          absent_or (\<lambda>v. case v of JArr items \<Rightarrow> list_all well_typed_item items | _ \<Rightarrow> False)
            kvs ''cargo''
      | _ \<Rightarrow> False)"




section \<open>Lemmas about the model\<close>

subsection \<open>Strings\<close>

lemma str_find_ge: "- 1 \<le> str_find c s"
  by (induction s) (auto simp: Let_def)

lemma str_find_none: "(str_find c s = - 1) = (c \<notin> set s)"
proof (induction s)
  case Nil
  then show ?case by simp
next
  case (Cons x xs)
  have "- 1 \<le> str_find c xs" by (rule str_find_ge)
  with Cons show ?case by (auto simp: Let_def)
qed

lemma str_find_drop: "c \<in> set s \<Longrightarrow> drop (nat (str_find c s)) s = dropWhile (\<lambda>x. x \<noteq> c) s"
proof (induction s)
  case Nil
  then show ?case by simp
next
  case (Cons x xs)
  show ?case
  proof (cases "x = c")
    case True
    then show ?thesis by simp
  next
    case False
    with Cons.prems have in_xs: "c \<in> set xs" by simp
    then have ne: "str_find c xs \<noteq> - 1" by (simp add: str_find_none)
    moreover have "- 1 \<le> str_find c xs" by (rule str_find_ge)
    ultimately have nn: "0 \<le> str_find c xs" by linarith
    then have "nat (str_find c xs + 1) = Suc (nat (str_find c xs))" by simp
    with False ne Cons.IH [OF in_xs] show ?thesis by (simp add: Let_def)
  qed
qed

lemma str_split_nonempty: "str_split c s \<noteq> []"
  by (induction s) (auto split: list.splits)

lemma str_split_no_sep: "l \<in> set (str_split c s) \<Longrightarrow> c \<notin> set l"
  by (induction s arbitrary: l) (auto split: list.splits if_splits)

lemma join_lines_Cons: "ls \<noteq> [] \<Longrightarrow> join_lines (l # ls) = l @ CHR 0x0A # join_lines ls"
  by (cases ls) auto

lemma join_lines_split: "join_lines (str_split (CHR 0x0A) s) = s"
proof (induction s)
  case Nil
  then show ?case by simp
next
  case (Cons x xs)
  show ?case
  proof (cases "str_split (CHR 0x0A) xs")
    case Nil
    then show ?thesis using str_split_nonempty by blast
  next
    case (Cons l ls)
    with Cons.IH have eq: "join_lines (l # ls) = xs" by simp
    show ?thesis
    proof (cases "x = CHR 0x0A")
      case True
      then show ?thesis using Cons eq by (simp add: join_lines_Cons del: join_lines.simps)
    next
      case False
      then show ?thesis using Cons eq by (cases ls) auto
    qed
  qed
qed

lemma warnings_lines:
  "(err = [] \<longrightarrow> warnings err = JArr []) \<and>
   (err \<noteq> [] \<longrightarrow>
      (\<exists>ls. warnings err = JArr (map JStr ls) \<and> join_lines ls = str_strip err \<and>
            (\<forall>l\<in>set ls. CHR 0x0A \<notin> set l)))"
  by (auto simp: warnings_def join_lines_split dest: str_split_no_sep)

subsection \<open>File system calls, artifacts and the solver process\<close>

lemma ship_cargo_names: "ship_name e \<noteq> cargo_name e"
  by (simp add: ship_name_def cargo_name_def)

lemma mkdtemp_Inr:
  "mkdtemp e w = Inr (d, w1) \<Longrightarrow> fs w d = None \<and> w1 = w\<lparr>fs := (fs w)(d \<mapsto> {})\<rparr>"
  by (auto simp: mkdtemp_def split: option.splits)

lemma mkdtemp_frame:
  assumes "mkdtemp e w = Inr (d, w1)"
  shows "users w1 = users w" "logs w1 = logs w" "console w1 = console w"
    "solver_runs w1 = solver_runs w"
  using mkdtemp_Inr [OF assms] by simp_all

lemma subprocess_run_fs: "fs (snd (subprocess_run e w)) = fs w"
  by (simp add: subprocess_run_def Let_def split: proc_result.splits)

lemma subprocess_run_frame:
  "users (snd (subprocess_run e w)) = users w"
  "logs (snd (subprocess_run e w)) = logs w"
  "solver_runs (snd (subprocess_run e w)) = solver_runs w + 1"
  "console (snd (subprocess_run e w)) = console w"
  by (auto simp: subprocess_run_def Let_def split: proc_result.splits)

lemma write_ship_config_fs:
  "fs w d = Some S \<Longrightarrow>
   write_ship_config ship (d, n) w = (ship_config_lines ship, w\<lparr>fs := (fs w)(d \<mapsto> insert n S)\<rparr>)"
  by (simp add: write_ship_config_def open_w_def)

lemma write_ship_config_frame:
  "users (snd (write_ship_config s p w)) = users w"
  "logs (snd (write_ship_config s p w)) = logs w"
  "solver_runs (snd (write_ship_config s p w)) = solver_runs w"
  "console (snd (write_ship_config s p w)) = console w"
  by (auto simp: write_ship_config_def open_w_def split: option.splits)

lemma write_cargo_manifest_fs:
  "fs w d = Some S \<Longrightarrow>
   snd (write_cargo_manifest cargo (d, n) w) = w\<lparr>fs := (fs w)(d \<mapsto> insert n S)\<rparr>"
  by (simp add: write_cargo_manifest_def open_w_def split: sum.splits)

lemma write_cargo_manifest_frame:
  "users (snd (write_cargo_manifest c p w)) = users w"
  "logs (snd (write_cargo_manifest c p w)) = logs w"
  "solver_runs (snd (write_cargo_manifest c p w)) = solver_runs w"
  "console (snd (write_cargo_manifest c p w)) = console w"
  by (auto simp: write_cargo_manifest_def open_w_def split: option.splits sum.splits)

lemma write_cargo_manifest_ok:
  "fs w d = Some S \<Longrightarrow> py_iter cargo = Inr items \<Longrightarrow> cargo_lines items = None \<Longrightarrow>
   write_cargo_manifest cargo (d, n) w = (None, w\<lparr>fs := (fs w)(d \<mapsto> insert n S)\<rparr>)"
  by (simp add: write_cargo_manifest_def open_w_def)

lemma cleanup_both:
  "fs w d = Some {sn, cn} \<Longrightarrow> sn \<noteq> cn \<Longrightarrow>
   cleanup (d, sn) (d, cn) d w = w\<lparr>fs := (fs w)(d := None)\<rparr>"
  by (auto simp: cleanup_def os_remove_def os_rmdir_def)

lemma cleanup_frame:
  "users (cleanup a b d w) = users w"
  "logs (cleanup a b d w) = logs w"
  "solver_runs (cleanup a b d w) = solver_runs w"
  "console (cleanup a b d w) = console w"
  by (auto simp: cleanup_def os_remove_def os_rmdir_def split: sum.splits option.splits if_splits)

lemma py_getitem_Inr: "py_getitem data k = Inr v \<Longrightarrow> \<exists>kvs. data = JObj kvs \<and> map_of kvs k = Some v"
  by (cases data) (auto split: option.splits)

subsection \<open>\<^verbatim>\<open>run_optimization\<close> and the production \<^verbatim>\<open>optimize\<close>\<close>

lemma run_optimization_try_cases:
  "run_optimization_try e ship cargo sf cf w =
     (case fst (write_ship_config ship sf w) of
        Some x \<Rightarrow> (Inl x, snd (write_ship_config ship sf w))
      | None \<Rightarrow>
     (case fst (write_cargo_manifest cargo cf (snd (write_ship_config ship sf w))) of
        Some x \<Rightarrow> (Inl x, snd (write_cargo_manifest cargo cf (snd (write_ship_config ship sf w))))
      | None \<Rightarrow>
          (fst (run_optimization_try e ship cargo sf cf w),
           snd (subprocess_run e
             (snd (write_cargo_manifest cargo cf (snd (write_ship_config ship sf w))))))))"
  by (auto simp: run_optimization_try_def Let_def split: prod.splits option.splits sum.splits)

lemma run_optimization_try_fs:
  assumes "fs w1 d = Some {}" and "ship_config_lines ship = None"
  shows "fs (snd (run_optimization_try e ship cargo (d, sn) (d, cn) w1)) = (fs w1)(d \<mapsto> {sn, cn})"
proof -
  let ?w2 = "w1\<lparr>fs := (fs w1)(d \<mapsto> {sn})\<rparr>"
  have ws: "write_ship_config ship (d, sn) w1 = (None, ?w2)"
    using assms by (simp add: write_ship_config_fs)
  have wc: "snd (write_cargo_manifest cargo (d, cn) ?w2) = ?w2\<lparr>fs := (fs ?w2)(d \<mapsto> {cn, sn})\<rparr>"
    by (rule write_cargo_manifest_fs) simp
  show ?thesis
    by (subst run_optimization_try_cases)
       (auto simp: ws wc subprocess_run_fs split: option.splits)
qed

lemma run_optimization_try_frame:
  "users (snd (run_optimization_try e ship cargo sf cf w)) = users w"
  "logs (snd (run_optimization_try e ship cargo sf cf w)) = logs w"
  "console (snd (run_optimization_try e ship cargo sf cf w)) = console w"
  by (subst run_optimization_try_cases,
      simp add: write_ship_config_frame write_cargo_manifest_frame subprocess_run_frame
        split: option.splits)+

lemma run_optimization_try_completed:
  assumes "fs w1 d = Some S" and "ship_config_lines ship = None"
    and "py_iter cargo = Inr items" and "cargo_lines items = None"
    and "proc e = Completed rc out err"
  shows "fst (run_optimization_try e ship cargo (d, sn) (d, cn) w1) =
     (if rc \<noteq> 0 then Inr (JNull, elapsed_ms e, Some err)
      else if CHR ''{'' \<notin> set out then Inr (JNull, elapsed_ms e, Some ''No JSON output'')
      else (case loads e (dropWhile (\<lambda>c. c \<noteq> CHR ''{'') out) of
              None \<Rightarrow> Inl JSONDecodeError
            | Some response_data \<Rightarrow>
                (case py_setitem response_data ''execution''
                        (JObj [(''success'', JBool True),
                               (''execution_time_ms'', JFloat (elapsed_ms e)),
                               (''warnings'', warnings err)]) of
                   Inl x \<Rightarrow> Inl x
                 | Inr response_data' \<Rightarrow> Inr (response_data', elapsed_ms e, None))))"
proof -
  let ?w2 = "w1\<lparr>fs := (fs w1)(d \<mapsto> insert sn S)\<rparr>"
  have ws: "write_ship_config ship (d, sn) w1 = (None, ?w2)"
    using assms(1,2) by (simp add: write_ship_config_fs)
  have "fs ?w2 d = Some (insert sn S)" by simp
  then have wc: "write_cargo_manifest cargo (d, cn) ?w2 =
      (None, ?w2\<lparr>fs := (fs ?w2)(d \<mapsto> insert cn (insert sn S))\<rparr>)"
    using assms(3,4) by (rule write_cargo_manifest_ok)
  show ?thesis
    by (simp add: run_optimization_try_def ws wc subprocess_run_def assms(5) Let_def
          str_find_none str_find_drop split: option.splits sum.splits)
qed

lemma run_optimization_try_timeout:
  assumes "fs w1 d = Some S" and "ship_config_lines ship = None"
    and "py_iter cargo = Inr items" and "cargo_lines items = None"
    and "proc e = TimedOut"
  shows "fst (run_optimization_try e ship cargo (d, sn) (d, cn) w1) = Inl TimeoutExpired"
    and "solver_runs (snd (run_optimization_try e ship cargo (d, sn) (d, cn) w1)) =
         solver_runs w1 + 1"
    and "logs (snd (run_optimization_try e ship cargo (d, sn) (d, cn) w1)) = logs w1"
proof -
  let ?w2 = "w1\<lparr>fs := (fs w1)(d \<mapsto> insert sn S)\<rparr>"
  have ws: "write_ship_config ship (d, sn) w1 = (None, ?w2)"
    using assms(1,2) by (simp add: write_ship_config_fs)
  have "fs ?w2 d = Some (insert sn S)" by simp
  then have wc: "write_cargo_manifest cargo (d, cn) ?w2 =
      (None, ?w2\<lparr>fs := (fs ?w2)(d \<mapsto> insert cn (insert sn S))\<rparr>)"
    using assms(3,4) by (rule write_cargo_manifest_ok)
  show "fst (run_optimization_try e ship cargo (d, sn) (d, cn) w1) = Inl TimeoutExpired"
    and "solver_runs (snd (run_optimization_try e ship cargo (d, sn) (d, cn) w1)) =
         solver_runs w1 + 1"
    and "logs (snd (run_optimization_try e ship cargo (d, sn) (d, cn) w1)) = logs w1"
    by (simp_all add: run_optimization_try_def ws wc subprocess_run_def assms(5) Let_def)
qed

lemma run_optimization_fst:
  "mkdtemp e w = Inr (d, w1) \<Longrightarrow>
   fst (run_optimization e ship cargo w) =
   fst (run_optimization_try e ship cargo (d, ship_name e) (d, cargo_name e) w1)"
  by (simp add: run_optimization_def Let_def case_prod_beta)

lemma run_optimization_snd:
  "mkdtemp e w = Inr (d, w1) \<Longrightarrow>
   snd (run_optimization e ship cargo w) =
     cleanup (d, ship_name e) (d, cargo_name e) d
       (snd (run_optimization_try e ship cargo (d, ship_name e) (d, cargo_name e) w1))"
  by (simp add: run_optimization_def Let_def case_prod_beta)

lemma run_optimization_fs:
  assumes "mkdtemp e w = Inr (d, w1)" and "ship_config_lines ship = None"
  shows "fs (snd (run_optimization e ship cargo w)) = fs w"
proof -
  from assms(1) have none: "fs w d = None" and w1: "w1 = w\<lparr>fs := (fs w)(d \<mapsto> {})\<rparr>"
    by (simp_all add: mkdtemp_Inr)
  define t where "t = snd (run_optimization_try e ship cargo (d, ship_name e) (d, cargo_name e) w1)"
  have "fs w1 d = Some {}" by (simp add: w1)
  then have t: "fs t = (fs w1)(d \<mapsto> {ship_name e, cargo_name e})"
    unfolding t_def using assms(2) by (rule run_optimization_try_fs)
  then have "cleanup (d, ship_name e) (d, cargo_name e) d t = t\<lparr>fs := (fs t)(d := None)\<rparr>"
    by (intro cleanup_both) (simp_all add: ship_cargo_names)
  then have "fs (cleanup (d, ship_name e) (d, cargo_name e) d t) = (fs t)(d := None)"
    by simp
  also have "\<dots> = (fs w)(d := None)" by (simp add: t w1)
  also have "\<dots> = fs w" using none by (simp add: fun_upd_idem)
  finally show ?thesis
    using assms(1) by (simp add: run_optimization_def Let_def t_def case_prod_beta)
qed

lemma run_optimization_frame:
  "users (snd (run_optimization e ship cargo w)) = users w"
  "logs (snd (run_optimization e ship cargo w)) = logs w"
  "console (snd (run_optimization e ship cargo w)) = console w"
  by (cases "mkdtemp e w";
      auto simp: run_optimization_def Let_def case_prod_beta cleanup_frame
        run_optimization_try_frame mkdtemp_frame)+

lemma optimize_fs:
  assumes "mkdtemp e w = Inr (d, w1)" and "request_json rq = Inr data"
    and "py_getitem data ''ship'' = Inr ship" and "ship_config_lines ship = None"
  shows "fs (snd (optimize e rq w)) = fs w"
proof -
  from assms(3) obtain kvs where data: "data = JObj kvs" and ship: "map_of kvs ''ship'' = Some ship"
    by (blast dest: py_getitem_Inr)
  have run: "fs (snd (run_optimization e ship cargo w)) = fs w" for cargo
    using assms(1,4) by (rule run_optimization_fs)
  show ?thesis
  proof (cases "map_of kvs ''cargo''")
    case None
    then show ?thesis by (simp add: optimize_def assms(2) data ship)
  next
    case (Some cargo)
    obtain r w2 where r: "run_optimization e ship cargo w = (r, w2)" by (cases "run_optimization e ship cargo w")
    with run [of cargo] have "fs w2 = fs w" by simp
    then show ?thesis
      by (auto simp: optimize_def assms(2) data ship Some r
            split: sum.splits option.splits list.splits prod.splits)
  qed
qed

subsection \<open>The basic \<^verbatim>\<open>optimize\<close>\<close>

lemma app_optimize_try_cases:
  "py_getitem data ''ship'' = Inr ship \<Longrightarrow> py_getitem data ''cargo'' = Inr cargo \<Longrightarrow>
   app_optimize_try e data sf cf w =
     (case fst (write_ship_config ship sf w) of
        Some x \<Rightarrow> (Inl x, snd (write_ship_config ship sf w))
      | None \<Rightarrow>
     (case fst (write_cargo_manifest cargo cf (snd (write_ship_config ship sf w))) of
        Some x \<Rightarrow> (Inl x, snd (write_cargo_manifest cargo cf (snd (write_ship_config ship sf w))))
      | None \<Rightarrow>
          (fst (app_optimize_try e data sf cf w),
           snd (subprocess_run e
             (snd (write_cargo_manifest cargo cf (snd (write_ship_config ship sf w))))))))"
  by (auto simp: app_optimize_try_def Let_def split: prod.splits option.splits sum.splits)

lemma app_optimize_try_fs:
  assumes "fs w1 d = Some {}" and "py_getitem data ''ship'' = Inr ship"
    and "ship_config_lines ship = None" and "py_getitem data ''cargo'' = Inr cargo"
  shows "fs (snd (app_optimize_try e data (d, sn) (d, cn) w1)) = (fs w1)(d \<mapsto> {sn, cn})"
proof -
  let ?w2 = "w1\<lparr>fs := (fs w1)(d \<mapsto> {sn})\<rparr>"
  have ws: "write_ship_config ship (d, sn) w1 = (None, ?w2)"
    using assms(1,3) by (simp add: write_ship_config_fs)
  have wc: "snd (write_cargo_manifest cargo (d, cn) ?w2) = ?w2\<lparr>fs := (fs ?w2)(d \<mapsto> {cn, sn})\<rparr>"
    by (rule write_cargo_manifest_fs) simp
  show ?thesis
    by (subst app_optimize_try_cases [OF assms(2,4)])
       (auto simp: ws wc subprocess_run_fs split: option.splits)
qed

lemma app_optimize_try_completed:
  assumes "fs w1 d = Some S" and "py_getitem data ''ship'' = Inr ship"
    and "ship_config_lines ship = None"
    and "py_getitem data ''cargo'' = Inr cargo"
    and "py_iter cargo = Inr items" and "cargo_lines items = None"
    and "proc e = Completed rc out err"
  shows "fst (app_optimize_try e data (d, sn) (d, cn) w1) =
     (if rc \<noteq> 0 then Inr (ErrorMsg (''Optimization failed: '' @ err), 500)
      else if CHR ''{'' \<notin> set out then Inr (ErrorMsg ''No JSON output from optimizer'', 500)
      else (case loads e (dropWhile (\<lambda>c. c \<noteq> CHR ''{'') out) of
              None \<Rightarrow> Inl JSONDecodeError
            | Some response_data \<Rightarrow>
                (case py_setitem response_data ''execution''
                        (JObj [(''success'', JBool True), (''warnings'', warnings err)]) of
                   Inl x \<Rightarrow> Inl x
                 | Inr response_data' \<Rightarrow> Inr (Jsonify response_data', 200))))"
proof -
  let ?w2 = "w1\<lparr>fs := (fs w1)(d \<mapsto> insert sn S)\<rparr>"
  have ws: "write_ship_config ship (d, sn) w1 = (None, ?w2)"
    using assms(1,3) by (simp add: write_ship_config_fs)
  have "fs ?w2 d = Some (insert sn S)" by simp
  then have wc: "write_cargo_manifest cargo (d, cn) ?w2 =
      (None, ?w2\<lparr>fs := (fs ?w2)(d \<mapsto> insert cn (insert sn S))\<rparr>)"
    using assms(5,6) by (rule write_cargo_manifest_ok)
  show ?thesis
    by (simp add: app_optimize_try_def assms(2,4) ws wc subprocess_run_def assms(7) Let_def
          str_find_none str_find_drop split: option.splits sum.splits)
qed

lemma app_optimize_try_timeout:
  assumes "fs w1 d = Some S" and "py_getitem data ''ship'' = Inr ship"
    and "ship_config_lines ship = None" and "py_getitem data ''cargo'' = Inr cargo"
    and "py_iter cargo = Inr items" and "cargo_lines items = None"
    and "proc e = TimedOut"
  shows "fst (app_optimize_try e data (d, sn) (d, cn) w1) = Inl TimeoutExpired"
    and "solver_runs (snd (app_optimize_try e data (d, sn) (d, cn) w1)) = solver_runs w1 + 1"
    and "logs (snd (app_optimize_try e data (d, sn) (d, cn) w1)) = logs w1"
proof -
  let ?w2 = "w1\<lparr>fs := (fs w1)(d \<mapsto> insert sn S)\<rparr>"
  have ws: "write_ship_config ship (d, sn) w1 = (None, ?w2)"
    using assms(1,3) by (simp add: write_ship_config_fs)
  have "fs ?w2 d = Some (insert sn S)" by simp
  then have wc: "write_cargo_manifest cargo (d, cn) ?w2 =
      (None, ?w2\<lparr>fs := (fs ?w2)(d \<mapsto> insert cn (insert sn S))\<rparr>)"
    using assms(5,6) by (rule write_cargo_manifest_ok)
  show "fst (app_optimize_try e data (d, sn) (d, cn) w1) = Inl TimeoutExpired"
    and "solver_runs (snd (app_optimize_try e data (d, sn) (d, cn) w1)) = solver_runs w1 + 1"
    and "logs (snd (app_optimize_try e data (d, sn) (d, cn) w1)) = logs w1"
    by (simp_all add: app_optimize_try_def assms(2,4) ws wc subprocess_run_def assms(7) Let_def)
qed

lemma app_optimize_fst:
  assumes "mkdtemp e w = Inr (d, w1)" and "request_json rq = Inr data"
    and "py_getitem data ''ship'' = Inr ship" and "py_getitem data ''cargo'' = Inr cargo"
  shows "fst (app_optimize e rq w) =
     (case fst (app_optimize_try e data (d, ship_name e) (d, cargo_name e) w1) of
        Inl x \<Rightarrow> app_except x
      | Inr resp \<Rightarrow> resp)"
proof -
  from assms(3) obtain kvs where data: "data = JObj kvs" and ship: "map_of kvs ''ship'' = Some ship"
    by (blast dest: py_getitem_Inr)
  from assms(4) have cargo: "map_of kvs ''cargo'' = Some cargo"
    by (simp add: data split: option.splits)
  from ship have ne: "kvs \<noteq> []" by auto
  show ?thesis
    by (simp add: app_optimize_def assms(1,2) data ship cargo ne Let_def case_prod_beta
          split: sum.splits)
qed

lemma app_optimize_snd:
  assumes "mkdtemp e w = Inr (d, w1)" and "request_json rq = Inr data"
    and "py_getitem data ''ship'' = Inr ship" and "py_getitem data ''cargo'' = Inr cargo"
  shows "snd (app_optimize e rq w) =
     cleanup (d, ship_name e) (d, cargo_name e) d
       (snd (app_optimize_try e data (d, ship_name e) (d, cargo_name e) w1))"
proof -
  from assms(3) obtain kvs where data: "data = JObj kvs" and ship: "map_of kvs ''ship'' = Some ship"
    by (blast dest: py_getitem_Inr)
  from assms(4) have cargo: "map_of kvs ''cargo'' = Some cargo"
    by (simp add: data split: option.splits)
  from ship have ne: "kvs \<noteq> []" by auto
  show ?thesis
    by (simp add: app_optimize_def assms(1,2) data ship cargo ne Let_def case_prod_beta
          split: sum.splits)
qed

lemma app_optimize_fs:
  assumes "mkdtemp e w = Inr (d, w1)" and "request_json rq = Inr data"
    and "py_getitem data ''ship'' = Inr ship" and "ship_config_lines ship = None"
  shows "fs (snd (app_optimize e rq w)) = fs w"
proof -
  from assms(3) obtain kvs where data: "data = JObj kvs" and ship: "map_of kvs ''ship'' = Some ship"
    by (blast dest: py_getitem_Inr)
  from assms(1) have none: "fs w d = None" and w1: "w1 = w\<lparr>fs := (fs w)(d \<mapsto> {})\<rparr>"
    by (simp_all add: mkdtemp_Inr)
  show ?thesis
  proof (cases "map_of kvs ''cargo''")
    case None
    then show ?thesis by (simp add: app_optimize_def assms(2) data ship)
  next
    case (Some cargo)
    then have cargo: "py_getitem data ''cargo'' = Inr cargo" by (simp add: data)
    define t where "t = snd (app_optimize_try e data (d, ship_name e) (d, cargo_name e) w1)"
    have "fs w1 d = Some {}" by (simp add: w1)
    then have t: "fs t = (fs w1)(d \<mapsto> {ship_name e, cargo_name e})"
      unfolding t_def using assms(3,4) cargo by (rule app_optimize_try_fs)
    then have "cleanup (d, ship_name e) (d, cargo_name e) d t = t\<lparr>fs := (fs t)(d := None)\<rparr>"
      by (intro cleanup_both) (simp_all add: ship_cargo_names)
    then have "fs (cleanup (d, ship_name e) (d, cargo_name e) d t) = (fs t)(d := None)"
      by simp
    also have "\<dots> = (fs w)(d := None)" by (simp add: t w1)
    also have "\<dots> = fs w" using none by (simp add: fun_upd_idem)
    finally show ?thesis
      using assms(1)
      by (auto simp: app_optimize_def assms(2) data ship Some Let_def t_def case_prod_beta
            split: sum.splits)
  qed
qed

text \<open>
  When \<^verbatim>\<open>write_ship_config\<close> raises (here on a ship without keys), the cargo file is
  never opened: the second \<^verbatim>\<open>os.remove\<close> of the \<^verbatim>\<open>finally\<close> block raises,
  \<^verbatim>\<open>os.rmdir\<close> is skipped, and the temporary directory stays behind, empty.
\<close>

lemma workspace_left_behind:
  "fs (snd (run_optimization demo_env (JObj []) (JArr [demo_item]) demo_world)) ''/tmp/tmpk3v9x2aq'' =
     Some {}"
  by (simp add: run_optimization_def mkdtemp_def demo_env_def demo_world_def
        run_optimization_try_def write_ship_config_def open_w_def ship_config_lines_def
        cleanup_def os_remove_def os_rmdir_def ship_name_def cargo_name_def Let_def)

subsection \<open>Dispatch and the cargo items\<close>
















text \<open>
  What a timeout does in general, for a dispatch that reaches the solver: one solver run,
  TimeoutExpired out of \<^verbatim>\<open>run_optimization\<close>, the timeout message with status 408 from
  the basic backend, and no usage record from either backend.
\<close>

lemma timeout_outcome:
  assumes "mkdtemp e w = Inr (d, w1)"
    and "request_json rq = Inr data"
    and "py_getitem data ''ship'' = Inr ship" and "ship_config_lines ship = None"
    and "py_getitem data ''cargo'' = Inr cargo"
    and "py_iter cargo = Inr items" and "cargo_lines items = None"
    and "proc e = TimedOut"
  shows "fst (app_optimize e rq w) = (ErrorMsg ''Optimization timeout (>30s)'', 408) \<and>
         solver_runs (snd (app_optimize e rq w)) = solver_runs w + 1 \<and>
         logs (snd (app_optimize e rq w)) = logs w \<and>
         fst (run_optimization e ship cargo w) = Inl TimeoutExpired \<and>
         fst (fst (optimize e rq w)) = ErrorOf TimeoutExpired \<and>
         solver_runs (snd (optimize e rq w)) = solver_runs w + 1 \<and>
         logs (snd (optimize e rq w)) = logs w"
proof -
  from assms(1) have w1: "fs w1 d = Some {}" and fr: "solver_runs w1 = solver_runs w" "logs w1 = logs w"
    by (auto dest: mkdtemp_Inr)
  note rt = run_optimization_try_timeout [OF w1 assms(4,6,7,8), of "ship_name e" "cargo_name e"]
  note at = app_optimize_try_timeout [OF w1 assms(3,4,5,6,7,8), of "ship_name e" "cargo_name e"]
  from assms(3) obtain kvs where data: "data = JObj kvs" and ship: "map_of kvs ''ship'' = Some ship"
    by (blast dest: py_getitem_Inr)
  from assms(5) have cargo: "map_of kvs ''cargo'' = Some cargo"
    by (simp add: data split: option.splits)
  from ship have ne: "kvs \<noteq> []" by auto
  have r1: "fst (run_optimization e ship cargo w) = Inl TimeoutExpired"
    by (simp add: run_optimization_fst [OF assms(1)] rt)
  have r2: "solver_runs (snd (run_optimization e ship cargo w)) = solver_runs w + 1"
    "logs (snd (run_optimization e ship cargo w)) = logs w"
    by (simp_all add: run_optimization_snd [OF assms(1)] cleanup_frame rt fr)
  obtain r w' where run: "run_optimization e ship cargo w = (r, w')"
    by (cases "run_optimization e ship cargo w")
  with r1 r2 have r: "r = Inl TimeoutExpired" "solver_runs w' = solver_runs w + 1" "logs w' = logs w"
    by simp_all
  have o: "optimize e rq w = ((ErrorOf TimeoutExpired, 500), w')"
    by (simp add: optimize_def assms(2) data ship cargo ne run r)
  have a1: "fst (app_optimize e rq w) = (ErrorMsg ''Optimization timeout (>30s)'', 408)"
    by (simp add: app_optimize_fst [OF assms(1,2,3,5)] at app_except_def)
  have a2: "solver_runs (snd (app_optimize e rq w)) = solver_runs w + 1"
    "logs (snd (app_optimize e rq w)) = logs w"
    by (simp_all add: app_optimize_snd [OF assms(1,2,3,5)] cleanup_frame at fr)
  show ?thesis by (simp add: a1 a2 r1 o r)
qed

subsection \<open>The API-key guard\<close>

lemma api_key_required_denies:
  assumes "x_api_key rq = Some key" and "key \<noteq> []"
    and "find (\<lambda>u. api_key u = Some key) (users w) = Some usr"
    and "daily_limit usr \<le> today_count e usr w"
  shows "api_key_required f e rq w = ((DailyLimitExceeded (daily_limit usr), 429), w)"
  using assms by (cases key) (simp_all add: api_key_required_def)

subsection \<open>Billing events\<close>

lemma find_update_first:
  "(\<And>x. P x \<Longrightarrow> P (f x)) \<Longrightarrow> find P (update_first P f xs) = map_option f (find P xs)"
  by (induction xs) auto

lemma update_first_idem:
  "(\<And>x. P x \<Longrightarrow> P (f x)) \<Longrightarrow> (\<And>x. f (f x) = f x) \<Longrightarrow>
   update_first P f (update_first P f xs) = update_first P f xs"
  by (induction xs) auto



lemma commit_cases:
  "commit us w = Inr w' \<Longrightarrow> w' = w\<lparr>users := us\<rparr>"
  by (auto simp: commit_def split: if_splits)

lemma handle_subscription_deleted_found:
  assumes "find (\<lambda>u. stripe_customer_id u = customer sub) (users w) = Some usr"
    and "handle_subscription_deleted sub w = (None, w1)"
  shows "users w1 =
     update_first (\<lambda>u. stripe_customer_id u = customer sub)
       (\<lambda>u. u\<lparr>subscription_tier := ''free'', subscription_status := Some ''canceled'',
              stripe_subscription_id := None\<rparr>) (users w)"
  using assms
  by (auto simp: handle_subscription_deleted_def Let_def print_def
        split: sum.splits dest!: commit_cases)

lemma handle_invoice_paid_found:
  assumes "find (\<lambda>u. stripe_customer_id u = customer invoice) (users w) = Some usr"
    and "handle_invoice_paid invoice w = (None, w1)"
  shows "users w1 =
     update_first (\<lambda>u. stripe_customer_id u = customer invoice)
       (\<lambda>u. u\<lparr>subscription_status := Some ''active'',
              stripe_subscription_id := subscription invoice\<rparr>) (users w)"
  using assms
  by (auto simp: handle_invoice_paid_def Let_def print_def
        split: sum.splits dest!: commit_cases)








text \<open>
  An event that carries no customer is not dropped when some user has no stored customer
  reference: the query matches that user.
\<close>

lemma invoice_without_customer_applied:
  "users (snd (stripe_webhook
      (Inr (''invoice.payment_succeeded'', invoice_event\<lparr>customer := None\<rparr>)) demo_world)) =
     [demo_user\<lparr>subscription_status := Some ''active'',
        stripe_subscription_id := Some ''sub_1''\<rparr>]"
  by (simp add: stripe_webhook_def handle_invoice_paid_def invoice_event_def
        demo_world_def demo_user_def commit_def unique_column_def Let_def print_def)

subsection \<open>Validation\<close>

lemma le_zero_number: "is_number v \<Longrightarrow> le_zero v = Inr (\<not> positive v)"
  by (cases v) auto

lemma any_le_zero_numbers:
  "list_all is_number ds \<Longrightarrow> any_le_zero ds = Inr (\<not> list_all positive ds)"
  by (induction ds) (auto simp: le_zero_number)

lemma get_number:
  "absent_or is_number kvs k \<Longrightarrow>
   le_zero (dict_get kvs k (JInt 0)) = Inr (\<not> positive (dict_get kvs k JNull))"
  by (auto simp: absent_or_def dict_get_def le_zero_number split: option.splits)

lemma get_id:
  "absent_or (\<lambda>v. case v of JStr s \<Rightarrow> True | _ \<Rightarrow> False) kvs ''id'' \<Longrightarrow>
   truthy (dict_get kvs ''id'' JNull) = nonempty_id (dict_get kvs ''id'' JNull)"
  by (auto simp: absent_or_def dict_get_def nonempty_id_def split: option.splits json.splits)

lemma get_dims:
  "absent_or (\<lambda>v. case v of JArr ds \<Rightarrow> list_all is_number ds | _ \<Rightarrow> False) kvs ''dimensions'' \<Longrightarrow>
   dims_invalid (dict_get kvs ''dimensions'' (JArr [])) =
     Inr (\<not> three_positive (dict_get kvs ''dimensions'' JNull))"
  by (auto simp: absent_or_def dict_get_def dims_invalid_def three_positive_def
        any_le_zero_numbers split: option.splits json.splits)

lemma validate_item_typed:
  assumes "well_typed_item item"
  shows "\<exists>es. validate_item i item = Inr es \<and>
           length es = length (filter Not (item_conditions item))"
proof -
  from assms obtain kvs where item: "item = JObj kvs"
    and id: "absent_or (\<lambda>v. case v of JStr s \<Rightarrow> True | _ \<Rightarrow> False) kvs ''id''"
    and weight: "absent_or is_number kvs ''weight''"
    and dims: "absent_or (\<lambda>v. case v of JArr ds \<Rightarrow> list_all is_number ds | _ \<Rightarrow> False) kvs
            ''dimensions''"
    by (auto simp: well_typed_item_def split: json.splits)
  show ?thesis
    by (simp add: item item_conditions_def get_id [OF id] get_number [OF weight]
          get_dims [OF dims] Let_def)
qed

lemma validate_items_typed:
  "list_all well_typed_item items \<Longrightarrow>
   \<exists>es. validate_items i items = Inr es \<and>
        length es = length (filter Not (concat (map item_conditions items)))"
proof (induction items arbitrary: i)
  case Nil
  then show ?case by simp
next
  case (Cons item rest)
  from Cons.prems have "well_typed_item item" and rest: "list_all well_typed_item rest"
    by simp_all
  then obtain es where es: "validate_item i item = Inr es"
      "length es = length (filter Not (item_conditions item))"
    using validate_item_typed by blast
  from Cons.IH [OF rest, of "Suc i"] obtain es' where es': "validate_items (Suc i) rest = Inr es'"
      "length es' = length (filter Not (concat (map item_conditions rest)))"
    by blast
  show ?case by (simp add: es es')
qed

lemma validate_errors_typed:
  assumes "well_typed data"
  shows "\<exists>es. validate_errors data = Inr es \<and> length es = violations data"
proof -
  from assms obtain kvs where data: "data = JObj kvs"
    and ship: "absent_or well_typed_ship kvs ''ship''"
    and cargo: "absent_or (\<lambda>v. case v of JArr items \<Rightarrow> list_all well_typed_item items | _ \<Rightarrow> False)
            kvs ''cargo''"
    by (auto simp: well_typed_def split: json.splits)
  define sh where "sh = dict_get kvs ''ship'' (JObj [])"
  from ship obtain skvs where sh: "sh = JObj skvs"
    and sl: "absent_or is_number skvs ''length''"
    and sw: "absent_or is_number skvs ''width''"
    and sm: "absent_or is_number skvs ''max_weight''"
    and sf: "\<And>k. field (dict_get kvs ''ship'' JNull) k = dict_get skvs k JNull"
    by (auto simp: sh_def data absent_or_def dict_get_def well_typed_ship_def
          split: option.splits json.splits)
  define ca where "ca = dict_get kvs ''cargo'' (JArr [])"
  from cargo obtain items where ca: "ca = JArr items"
    and ci: "list_all well_typed_item items"
    and cf: "cargo_items (JObj kvs) = items"
    by (auto simp: ca_def data absent_or_def dict_get_def cargo_items_def
          split: option.splits json.splits)
  from validate_items_typed [OF ci, of 0] obtain es where es: "validate_items 0 items = Inr es"
      "length es = length (filter Not (concat (map item_conditions items)))"
    by blast
  show ?thesis
    using es
    by (simp add: validate_errors_def data sh_def [symmetric] ca_def [symmetric] sh ca
          get_number [OF sl] get_number [OF sw] get_number [OF sm]
          violations_def conditions_def sf cf)
qed

lemma spec_valid_violations: "spec_valid data = (violations data = 0)"
proof -
  have "list_all (\<lambda>c. c) cs = (filter Not cs = [])" for cs :: "bool list"
    by (induction cs) auto
  then show ?thesis by (simp add: spec_valid_def violations_def)
qed

subsection \<open>The sample values\<close>

lemma demo_mkdtemp:
  "mkdtemp (demo_env\<lparr>proc := p\<rparr>) demo_world =
     Inr (''/tmp/tmpk3v9x2aq'', demo_world\<lparr>fs := (fs demo_world)(''/tmp/tmpk3v9x2aq'' \<mapsto> {})\<rparr>)"
  by (simp add: mkdtemp_def demo_env_def demo_world_def)

lemma demo_ship_ok: "py_getitem demo_data ''ship'' = Inr demo_ship"
  by (simp add: demo_data_def)

lemma demo_ship_lines: "ship_config_lines demo_ship = None"
  by (simp add: ship_config_lines_def demo_ship_def dict_get_def)

lemma demo_cargo_ok: "py_getitem demo_data ''cargo'' = Inr (JArr [demo_item])"
  by (simp add: demo_data_def)

lemma demo_cargo_line: "cargo_line demo_item = None"
  by (simp add: cargo_line_def demo_item_def dict_get_def)

lemma demo_cargo_lines: "cargo_lines [demo_item] = None"
  by (simp add: demo_cargo_line)

lemma demo_warnings: "warnings ''Warning: trim'' = JArr [JStr ''Warning: trim'']"
  by (simp add: warnings_def str_strip_def isspace_def)


lemma demo_data_conditions:
  "well_typed demo_data" "conditions demo_data = [True, True, True, True, True, True, True]"
  by (simp_all add: well_typed_def well_typed_ship_def well_typed_item_def absent_or_def
        demo_data_def demo_ship_def demo_item_def conditions_def cargo_items_def
        item_conditions_def nonempty_id_def three_positive_def dict_get_def)

lemma bad_data_conditions:
  "well_typed (JObj [(''ship'', demo_ship), (''cargo'', JArr [bad_item])])"
  "conditions (JObj [(''ship'', demo_ship), (''cargo'', JArr [bad_item])]) =
     [True, True, True, True, True, False, True]"
  by (simp_all add: well_typed_def well_typed_ship_def well_typed_item_def absent_or_def
        demo_ship_def bad_item_def conditions_def cargo_items_def
        item_conditions_def nonempty_id_def three_positive_def dict_get_def)

text \<open>
  A remark on the production \<^verbatim>\<open>optimize\<close>: \<^verbatim>\<open>run_optimization\<close> classifies a nonzero
  return code as a failure that carries the diagnostics, but \<^verbatim>\<open>if error:\<close> then tests
  the diagnostics for truth. With empty diagnostics the failure is passed over, and a
  visitor who is not logged in gets \<^verbatim>\<open>jsonify(None)\<close> with status 200.
\<close>

lemma optimize_silent_failure:
  "fst (run_optimization (demo_env\<lparr>proc := Completed 1 [] []\<rparr>) demo_ship (JArr [demo_item])
          demo_world) = Inr (JNull, 12, Some []) \<and>
   fst (optimize (demo_env\<lparr>proc := Completed 1 [] []\<rparr>) (demo_request\<lparr>session_user := None\<rparr>)
          demo_world) = (Jsonify JNull, 200)"
  by (simp add: demo_world_def optimize_def demo_request_def demo_data_def
        run_optimization_def mkdtemp_def
        run_optimization_try_def write_ship_config_def write_cargo_manifest_def open_w_def
        demo_ship_lines demo_cargo_line subprocess_run_def demo_env_def Let_def
        cleanup_def os_remove_def os_rmdir_def ship_name_def cargo_name_def)


section \<open>Properties\<close>

text \<open>
  C1. The sample user is on the free tier (limit 10) and has ten usage records of today.
  One further \<^verbatim>\<open>optimize\<close> of the production backend by that user is answered with
  status 200: the solver is run once more and an eleventh usage record is written. The
  route does not consult the daily limit; the check of \<^verbatim>\<open>api_key_required\<close>
  (lemma \<open>api_key_required_denies\<close>) is attached to no route.
\<close>

theorem optimize_past_daily_limit:
  "daily_limit demo_user = 10 \<and>
   today_count demo_env demo_user limit_world = 10 \<and>
   snd (fst (optimize demo_env demo_request limit_world)) = 200 \<and>
   solver_runs (snd (optimize demo_env demo_request limit_world)) = solver_runs limit_world + 1 \<and>
   length (logs (snd (optimize demo_env demo_request limit_world))) = 11"
  by (simp add: daily_limit_def limits_def demo_user_def today_count_def today_start_def
        limit_world_def demo_world_def demo_log_def
        optimize_def demo_request_def demo_data_def run_optimization_def mkdtemp_def
        run_optimization_try_def write_ship_config_def write_cargo_manifest_def open_w_def
        demo_ship_lines demo_cargo_line subprocess_run_def demo_env_def Let_def
        demo_payload_def demo_loads_def demo_plan_def cleanup_def os_remove_def os_rmdir_def
        ship_name_def cargo_name_def)




text \<open>
  C3. The solver times out on the sample request of a logged-in user. The production
  backend runs the solver once, answers with the blanket \<^verbatim>\<open>except Exception\<close> (status
  500, not 408) and appends no usage record, neither with \<open>success = False\<close> nor any
  other. The basic backend answers the same request with its explicit timeout clause,
  status 408.
\<close>

theorem optimize_timeout_unrecorded:
  "fst (optimize (demo_env\<lparr>proc := TimedOut\<rparr>) demo_request demo_world) =
     (ErrorOf TimeoutExpired, 500) \<and>
   solver_runs (snd (optimize (demo_env\<lparr>proc := TimedOut\<rparr>) demo_request demo_world)) = 1 \<and>
   logs (snd (optimize (demo_env\<lparr>proc := TimedOut\<rparr>) demo_request demo_world)) = [] \<and>
   fst (app_optimize (demo_env\<lparr>proc := TimedOut\<rparr>) demo_request demo_world) =
     (ErrorMsg ''Optimization timeout (>30s)'', 408)"
  by (simp add: demo_world_def optimize_def app_optimize_def app_optimize_try_def app_except_def
        demo_request_def demo_data_def run_optimization_def mkdtemp_def
        run_optimization_try_def write_ship_config_def write_cargo_manifest_def open_w_def
        demo_ship_lines demo_cargo_line subprocess_run_def demo_env_def Let_def
        cleanup_def os_remove_def os_rmdir_def ship_name_def cargo_name_def)

text \<open>
  C4. A dispatch that has written its two artifacts and whose solver process has
  completed with return code \<open>rc\<close>, output \<open>out\<close> and diagnostics \<open>err\<close> is
  classified as follows, by \<^verbatim>\<open>run_optimization\<close> and by the basic \<^verbatim>\<open>optimize\<close> alike.
  A nonzero return code is a solver failure that carries \<open>err\<close>. Return code zero with
  no \<open>{\<close> anywhere in \<open>out\<close> is the no-JSON-output failure. Otherwise the payload is the
  part of \<open>out\<close> from its first \<open>{\<close> on; when \<^verbatim>\<open>json.loads\<close> fails on it, the outcome
  is the JSONDecodeError failure, and when it gives an object (a text that starts with
  \<open>{\<close> parses to an object or not at all), the outcome is success: that object with a
  key \<open>execution\<close> whose \<open>warnings\<close> are the lines of the stripped diagnostics (none
  when \<open>err\<close> is empty).
\<close>

theorem solver_outcome_classification:
  assumes "mkdtemp e w = Inr (d, w1)"
    and "request_json rq = Inr data"
    and "py_getitem data ''ship'' = Inr ship" and "ship_config_lines ship = None"
    and "py_getitem data ''cargo'' = Inr cargo"
    and "py_iter cargo = Inr items" and "cargo_lines items = None"
    and "proc e = Completed rc out err"
  shows
    "(rc \<noteq> 0 \<longrightarrow>
        fst (run_optimization e ship cargo w) = Inr (JNull, elapsed_ms e, Some err) \<and>
        fst (app_optimize e rq w) = (ErrorMsg (''Optimization failed: '' @ err), 500)) \<and>
     (rc = 0 \<and> CHR ''{'' \<notin> set out \<longrightarrow>
        fst (run_optimization e ship cargo w) = Inr (JNull, elapsed_ms e, Some ''No JSON output'') \<and>
        fst (app_optimize e rq w) = (ErrorMsg ''No JSON output from optimizer'', 500)) \<and>
     (rc = 0 \<and> CHR ''{'' \<in> set out \<and> loads e (dropWhile (\<lambda>c. c \<noteq> CHR ''{'') out) = None \<longrightarrow>
        fst (run_optimization e ship cargo w) = Inl JSONDecodeError \<and>
        fst (app_optimize e rq w) = (InvalidJSONOutput JSONDecodeError, 500)) \<and>
     (\<forall>plan. rc = 0 \<and> CHR ''{'' \<in> set out \<and>
        loads e (dropWhile (\<lambda>c. c \<noteq> CHR ''{'') out) = Some (JObj plan) \<longrightarrow>
        fst (run_optimization e ship cargo w) =
          Inr (JObj (dict_set plan ''execution''
                 (JObj [(''success'', JBool True),
                        (''execution_time_ms'', JFloat (elapsed_ms e)),
                        (''warnings'', warnings err)])),
               elapsed_ms e, None) \<and>
        fst (app_optimize e rq w) =
          (Jsonify (JObj (dict_set plan ''execution''
                 (JObj [(''success'', JBool True), (''warnings'', warnings err)]))), 200)) \<and>
     (err = [] \<longrightarrow> warnings err = JArr []) \<and>
     (err \<noteq> [] \<longrightarrow>
        (\<exists>ls. warnings err = JArr (map JStr ls) \<and> join_lines ls = str_strip err \<and>
              (\<forall>l\<in>set ls. CHR 0x0A \<notin> set l)))"
proof -
  from assms(1) have w1: "fs w1 d = Some {}" by (auto dest: mkdtemp_Inr)
  note run = run_optimization_try_completed [OF w1 assms(4,6,7,8), of "ship_name e" "cargo_name e"]
  note app = app_optimize_try_completed [OF w1 assms(3,4,5,6,7,8), of "ship_name e" "cargo_name e"]
  have r: "fst (run_optimization e ship cargo w) =
      fst (run_optimization_try e ship cargo (d, ship_name e) (d, cargo_name e) w1)"
    using assms(1) by (rule run_optimization_fst)
  note a = app_optimize_fst [OF assms(1,2,3,5)]
  show ?thesis
    using warnings_lines [of err]
    by (simp add: r a run app app_except_def)
qed

theorem solver_outcome_classification_witness:
  "fst (run_optimization demo_env demo_ship (JArr [demo_item]) demo_world) =
     Inr (JObj [(''analysis'', JObj [(''placed_count'', JInt 1)]),
                (''execution'',
                 JObj [(''success'', JBool True), (''execution_time_ms'', JFloat 12),
                       (''warnings'', JArr [JStr ''Warning: trim''])])],
          12, None) \<and>
   fst (app_optimize demo_env demo_request demo_world) =
     (Jsonify (JObj [(''analysis'', JObj [(''placed_count'', JInt 1)]),
                (''execution'',
                 JObj [(''success'', JBool True),
                       (''warnings'', JArr [JStr ''Warning: trim''])])]), 200) \<and>
   fst (run_optimization (demo_env\<lparr>proc := Completed 2 [] ''no fit''\<rparr>) demo_ship
          (JArr [demo_item]) demo_world) = Inr (JNull, 12, Some ''no fit'') \<and>
   fst (app_optimize (demo_env\<lparr>proc := Completed 0 ''done'' []\<rparr>) demo_request demo_world) =
     (ErrorMsg ''No JSON output from optimizer'', 500) \<and>
   fst (app_optimize (demo_env\<lparr>proc := Completed 0 ''{plan'' []\<rparr>) demo_request demo_world) =
     (InvalidJSONOutput JSONDecodeError, 500)"
proof -
  have rq: "request_json demo_request = Inr demo_data" by (simp add: demo_request_def)
  have it: "py_iter (JArr [demo_item]) = Inr [demo_item]" by simp
  have mk: "mkdtemp demo_env demo_world =
     Inr (''/tmp/tmpk3v9x2aq'', demo_world\<lparr>fs := (fs demo_world)(''/tmp/tmpk3v9x2aq'' \<mapsto> {})\<rparr>)"
    using demo_mkdtemp [of "proc demo_env"] by simp
  have p0: "proc demo_env = Completed 0 (''Placing 1 item '' @ demo_payload) ''Warning: trim''"
    by (simp add: demo_env_def)
  have p1: "proc (demo_env\<lparr>proc := p\<rparr>) = p" for p by simp
  have el: "elapsed_ms demo_env = 12" "loads demo_env = demo_loads" by (simp_all add: demo_env_def)
  show ?thesis
    using solver_outcome_classification
        [OF mk rq demo_ship_ok demo_ship_lines demo_cargo_ok it demo_cargo_lines p0]
      solver_outcome_classification
        [OF demo_mkdtemp rq demo_ship_ok demo_ship_lines demo_cargo_ok it demo_cargo_lines
         p1 [of "Completed 2 [] ''no fit''"]]
      solver_outcome_classification
        [OF demo_mkdtemp rq demo_ship_ok demo_ship_lines demo_cargo_ok it demo_cargo_lines
         p1 [of "Completed 0 ''done'' []"]]
      solver_outcome_classification
        [OF demo_mkdtemp rq demo_ship_ok demo_ship_lines demo_cargo_ok it demo_cargo_lines
         p1 [of "Completed 0 ''{plan'' []"]]
    by (simp add: el demo_loads_def demo_payload_def demo_plan_def demo_warnings)
qed

text \<open>
  C5. A dispatch that has created its workspace (the temporary directory exists and
  \<^verbatim>\<open>write_ship_config\<close> has returned, so that both artifact files have been opened)
  leaves neither the directory nor a file of it behind, however it ends: the directory
  \<open>d\<close> does not exist in the file system after \<^verbatim>\<open>run_optimization\<close>, after the
  production \<^verbatim>\<open>optimize\<close> and after the basic \<^verbatim>\<open>optimize\<close>, and the file system is
  the one before the dispatch. The solver's outcome (any return code, timeout, launch
  failure), the cargo list and \<^verbatim>\<open>json.loads\<close> are arbitrary.
\<close>

theorem workspace_removed:
  assumes "mkdtemp e w = Inr (d, w1)"
    and "request_json rq = Inr data"
    and "py_getitem data ''ship'' = Inr ship"
    and "ship_config_lines ship = None"
  shows "fs (snd (run_optimization e ship cargo w)) d = None \<and>
         fs (snd (optimize e rq w)) d = None \<and>
         fs (snd (app_optimize e rq w)) d = None \<and>
         fs (snd (run_optimization e ship cargo w)) = fs w \<and>
         fs (snd (optimize e rq w)) = fs w \<and>
         fs (snd (app_optimize e rq w)) = fs w"
proof -
  have "fs w d = None" using assms(1) by (simp add: mkdtemp_Inr)
  moreover have "fs (snd (run_optimization e ship cargo w)) = fs w"
    using assms(1,4) by (rule run_optimization_fs)
  moreover have "fs (snd (optimize e rq w)) = fs w"
    using assms by (rule optimize_fs)
  moreover have "fs (snd (app_optimize e rq w)) = fs w"
    using assms by (rule app_optimize_fs)
  ultimately show ?thesis by simp
qed

theorem workspace_removed_witness:
  "fs (snd (run_optimization (demo_env\<lparr>proc := TimedOut\<rparr>) demo_ship (JArr [demo_item]) demo_world))
      ''/tmp/tmpk3v9x2aq'' = None \<and>
   fs (snd (optimize (demo_env\<lparr>proc := TimedOut\<rparr>) demo_request demo_world))
      ''/tmp/tmpk3v9x2aq'' = None \<and>
   fs (snd (app_optimize (demo_env\<lparr>proc := TimedOut\<rparr>) demo_request demo_world))
      ''/tmp/tmpk3v9x2aq'' = None \<and>
   solver_runs (snd (optimize (demo_env\<lparr>proc := TimedOut\<rparr>) demo_request demo_world)) = 1 \<and>
   fs (snd (optimize demo_env demo_request demo_world)) ''/tmp/tmpk3v9x2aq'' = None \<and>
   fs (snd (run_optimization (demo_env\<lparr>proc := Completed 2 [] ''no fit''\<rparr>) demo_ship
          (JArr [JObj []]) demo_world)) ''/tmp/tmpk3v9x2aq'' = None"
proof -
  have rq: "request_json demo_request = Inr demo_data" by (simp add: demo_request_def)
  have runs: "solver_runs (snd (optimize (demo_env\<lparr>proc := TimedOut\<rparr>) demo_request demo_world)) = 1"
    by (simp add: optimize_def rq demo_data_def run_optimization_def mkdtemp_def
          run_optimization_try_def write_ship_config_def write_cargo_manifest_def open_w_def
          demo_ship_lines demo_cargo_line
          subprocess_run_def demo_env_def demo_world_def cleanup_frame Let_def)
  show ?thesis
    using workspace_removed [OF demo_mkdtemp rq demo_ship_ok demo_ship_lines,
        of TimedOut "JArr [demo_item]"]
      workspace_removed [OF demo_mkdtemp rq demo_ship_ok demo_ship_lines,
        of "proc demo_env" "JArr [demo_item]"]
      workspace_removed [OF demo_mkdtemp rq demo_ship_ok demo_ship_lines,
        of "Completed 2 [] ''no fit''" "JArr [JObj []]"]
      runs
    by (simp add: demo_world_def)
qed

text \<open>
  C6. Applying \<^verbatim>\<open>handle_checkout_completed\<close> twice with the same event leaves the table
  of principals (tier, status, customer and subscription reference of every user) exactly
  as applying it once does, from every state and for every event, whether the event is
  applied, dropped for an unknown email, or refused by the storage engine.
\<close>

theorem checkout_completed_idempotent:
  "users (snd (handle_checkout_completed session (snd (handle_checkout_completed session w)))) =
   users (snd (handle_checkout_completed session w))"
proof (cases "event_tier session")
  case (Inl x)
  then show ?thesis by (simp add: handle_checkout_completed_def)
next
  case (Inr tier)
  define P :: "user \<Rightarrow> bool" where "P = (\<lambda>u. Some (email u) = customer_email session)"
  define f :: "user \<Rightarrow> user" where "f = (\<lambda>u. u\<lparr>subscription_tier := tier,
      stripe_customer_id := customer session,
      stripe_subscription_id := subscription session,
      subscription_status := Some ''active''\<rparr>)"
  have Pf: "P x \<Longrightarrow> P (f x)" for x by (simp add: P_def f_def)
  have ff: "f (f x) = f x" for x by (simp add: f_def)
  have h: "handle_checkout_completed session v =
      (case find P (users v) of
         None \<Rightarrow> (None, print (''Warning: User not found for email '' @ str_of (customer_email session)) v)
       | Some usr \<Rightarrow>
           (case commit (update_first P f (users v)) v of
              Inl x \<Rightarrow> (Some x, v)
            | Inr v1 \<Rightarrow> (None, print (''User '' @ email usr @ '' upgraded to '' @ tier) v1)))"
    for v
    unfolding handle_checkout_completed_def P_def f_def Let_def Inr by simp
  show ?thesis
  proof (cases "find P (users w)")
    case None
    then show ?thesis by (simp add: h print_def)
  next
    case (Some usr)
    show ?thesis
    proof (cases "unique_column stripe_customer_id (update_first P f (users w)) \<and>
        unique_column stripe_subscription_id (update_first P f (users w))")
      case False
      then show ?thesis by (auto simp: h Some commit_def)
    next
      case True
      have "find P (update_first P f (users w)) = Some (f usr)"
        using Pf by (simp add: find_update_first Some)
      moreover have "update_first P f (update_first P f (users w)) = update_first P f (users w)"
        using Pf ff by (rule update_first_idem)
      ultimately show ?thesis using True by (simp add: h Some commit_def print_def)
    qed
  qed
qed

text \<open>
  C7. Let a principal be stored under the customer reference \<open>c\<close>. When the
  subscription-deleted handler and then the invoice-paid handler are applied for customer
  \<open>c\<close> (both complete, that is, neither commit is refused), the principal found under
  \<open>c\<close> is the same one, its status is \<open>active\<close> (the last event decides) and its tier
  is still \<open>free\<close>.
\<close>

theorem deleted_then_invoice_paid:
  assumes "find (\<lambda>u. stripe_customer_id u = Some c) (users w) = Some usr"
    and "customer sub = Some c" and "customer invoice = Some c"
    and "handle_subscription_deleted sub w = (None, w1)"
    and "handle_invoice_paid invoice w1 = (None, w2)"
  shows "\<exists>usr'. find (\<lambda>u. stripe_customer_id u = Some c) (users w2) = Some usr' \<and>
           uid usr' = uid usr \<and> email usr' = email usr \<and>
           subscription_status usr' = Some ''active'' \<and>
           subscription_tier usr' = ''free''"
proof -
  define P :: "user \<Rightarrow> bool" where "P = (\<lambda>u. stripe_customer_id u = Some c)"
  define fd :: "user \<Rightarrow> user" where
    "fd = (\<lambda>u. u\<lparr>subscription_tier := ''free'', subscription_status := Some ''canceled'',
              stripe_subscription_id := None\<rparr>)"
  define fp :: "user \<Rightarrow> user" where
    "fp = (\<lambda>u. u\<lparr>subscription_status := Some ''active'',
              stripe_subscription_id := subscription invoice\<rparr>)"
  have Pd: "P x \<Longrightarrow> P (fd x)" for x by (simp add: P_def fd_def)
  have Pp: "P x \<Longrightarrow> P (fp x)" for x by (simp add: P_def fp_def)
  have found: "find P (users w) = Some usr" using assms(1) by (simp add: P_def)
  have u1: "users w1 = update_first P fd (users w)"
    using handle_subscription_deleted_found [of sub w usr w1] assms(1,2,4)
    by (simp add: P_def fd_def)
  have found1: "find P (users w1) = Some (fd usr)"
    using Pd by (simp add: u1 find_update_first found)
  have u2: "users w2 = update_first P fp (users w1)"
    using handle_invoice_paid_found [of invoice w1 "fd usr" w2] found1 assms(3,5)
    by (simp add: P_def fp_def)
  have "find P (users w2) = Some (fp (fd usr))"
    using Pp by (simp add: u2 find_update_first found1)
  then show ?thesis
    by (simp add: P_def fp_def fd_def)
qed

theorem deleted_then_invoice_paid_witness:
  "\<exists>usr'. find (\<lambda>u. stripe_customer_id u = Some ''cus_1'')
       (users (snd (handle_invoice_paid invoice_event
          (snd (handle_subscription_deleted deleted_event billing_world))))) = Some usr' \<and>
     uid usr' = 2 \<and> email usr' = ''bo@example.org'' \<and>
     subscription_status usr' = Some ''active'' \<and> subscription_tier usr' = ''free''"
proof -
  define w1 where "w1 = snd (handle_subscription_deleted deleted_event billing_world)"
  define w2 where "w2 = snd (handle_invoice_paid invoice_event w1)"
  have w1: "w1 = print ''Subscription cancelled for user bo@example.org, downgraded to free tier''
      (billing_world\<lparr>users := [demo_user, paid_user\<lparr>subscription_tier := ''free'',
         subscription_status := Some ''canceled'', stripe_subscription_id := None\<rparr>]\<rparr>)"
    by (simp add: w1_def handle_subscription_deleted_def deleted_event_def billing_world_def
          demo_world_def demo_user_def paid_user_def commit_def unique_column_def Let_def)
  have h1: "find (\<lambda>u. stripe_customer_id u = Some ''cus_1'') (users billing_world) = Some paid_user"
    by (simp add: billing_world_def demo_world_def demo_user_def paid_user_def)
  have h2: "customer deleted_event = Some ''cus_1''" by (simp add: deleted_event_def)
  have h3: "customer invoice_event = Some ''cus_1''" by (simp add: invoice_event_def)
  have h4: "handle_subscription_deleted deleted_event billing_world = (None, w1)"
    by (simp add: w1_def prod_eq_iff handle_subscription_deleted_def deleted_event_def
          billing_world_def demo_world_def demo_user_def paid_user_def commit_def
          unique_column_def Let_def)
  have h5: "handle_invoice_paid invoice_event w1 = (None, w2)"
    by (simp add: w2_def prod_eq_iff w1 handle_invoice_paid_def invoice_event_def
          billing_world_def demo_world_def demo_user_def paid_user_def commit_def
          unique_column_def Let_def print_def)
  show ?thesis
    using deleted_then_invoice_paid [OF h1 h2 h3 h4 h5]
    by (simp add: w2_def w1_def paid_user_def)
qed




text \<open>
  C9. The daily limit of a principal is 10 on tier \<open>free\<close>, 1000 on \<open>pro\<close> and 10000 on
  \<open>enterprise\<close>; on every other tier string it is the free limit, 10.
\<close>

theorem daily_limit_table:
  "(subscription_tier u = ''free'' \<longrightarrow> daily_limit u = 10) \<and>
   (subscription_tier u = ''pro'' \<longrightarrow> daily_limit u = 1000) \<and>
   (subscription_tier u = ''enterprise'' \<longrightarrow> daily_limit u = 10000) \<and>
   (subscription_tier u \<notin> {''free'', ''pro'', ''enterprise''} \<longrightarrow> daily_limit u = 10)"
  by (simp add: daily_limit_def limits_def)

theorem daily_limit_table_witness:
  "daily_limit \<lparr>uid = 1, email = ''a@b.c'', username = ''a'', subscription_tier = ''free'',
      subscription_status = Some ''active'', stripe_customer_id = None,
      stripe_subscription_id = None, api_key = None\<rparr> = 10 \<and>
   daily_limit \<lparr>uid = 2, email = ''p@b.c'', username = ''p'', subscription_tier = ''pro'',
      subscription_status = Some ''active'', stripe_customer_id = Some ''cus_1'',
      stripe_subscription_id = Some ''sub_1'', api_key = None\<rparr> = 1000 \<and>
   daily_limit \<lparr>uid = 3, email = ''e@b.c'', username = ''e'', subscription_tier = ''enterprise'',
      subscription_status = Some ''active'', stripe_customer_id = None,
      stripe_subscription_id = None, api_key = None\<rparr> = 10000 \<and>
   daily_limit \<lparr>uid = 4, email = ''g@b.c'', username = ''g'', subscription_tier = ''gold'',
      subscription_status = Some ''active'', stripe_customer_id = None,
      stripe_subscription_id = None, api_key = None\<rparr> = 10"
  using daily_limit_table
    [of "\<lparr>uid = 1, email = ''a@b.c'', username = ''a'', subscription_tier = ''free'',
      subscription_status = Some ''active'', stripe_customer_id = None,
      stripe_subscription_id = None, api_key = None\<rparr>"]
    daily_limit_table
    [of "\<lparr>uid = 2, email = ''p@b.c'', username = ''p'', subscription_tier = ''pro'',
      subscription_status = Some ''active'', stripe_customer_id = Some ''cus_1'',
      stripe_subscription_id = Some ''sub_1'', api_key = None\<rparr>"]
    daily_limit_table
    [of "\<lparr>uid = 3, email = ''e@b.c'', username = ''e'', subscription_tier = ''enterprise'',
      subscription_status = Some ''active'', stripe_customer_id = None,
      stripe_subscription_id = None, api_key = None\<rparr>"]
    daily_limit_table
    [of "\<lparr>uid = 4, email = ''g@b.c'', username = ''g'', subscription_tier = ''gold'',
      subscription_status = Some ''active'', stripe_customer_id = None,
      stripe_subscription_id = None, api_key = None\<rparr>"]
  by simp

text \<open>
  C10, as stated, fails: a body whose ship length is the string \<open>100\<close> gets no report.
  The comparison \<^verbatim>\<open>'100' <= 0\<close> raises TypeError and the endpoint answers with status
  500 and an error message, neither \<open>valid = true\<close> nor \<open>valid = false\<close>.
\<close>

theorem validate_ill_typed:
  "validate (demo_request\<lparr>request_json :=
       Inr (JObj [(''ship'', JObj [(''length'', JStr ''100'')]), (''cargo'', JArr [demo_item])])\<rparr>)
     demo_world = ((ErrorOf TypeError, 500), demo_world)"
  by (simp add: validate_def validate_errors_def dict_get_def)

text \<open>
  C10, amended. For every request to the validation endpoint whose body has the expected
  shape (\<open>well_typed\<close>), the response is a report with status 200 whose \<open>valid\<close> flag
  is true exactly when all conditions hold (positive ship length, width and maximal
  weight, a non-empty cargo list, and for every item a non-empty id, a positive weight and
  exactly three positive dimensions), and whose list of errors has one message per
  violated condition; the world is unchanged, as it is after every request to the
  endpoint, whatever its body.
\<close>

theorem validate_report:
  assumes "request_json rq = Inr data" and "well_typed data"
  shows "(\<exists>errors. validate rq w = ((ValidationReport (spec_valid data) errors, 200), w) \<and>
           length errors = violations data) \<and>
         (\<forall>rq'. snd (validate rq' w) = w)"
proof -
  from validate_errors_typed [OF assms(2)] obtain es
    where es: "validate_errors data = Inr es" "length es = violations data" by blast
  then have "\<exists>errors. validate rq w = ((ValidationReport (spec_valid data) errors, 200), w) \<and>
           length errors = violations data"
    by (simp add: validate_def assms(1) spec_valid_violations)
  moreover have "snd (validate rq' w) = w" for rq'
    by (simp add: validate_def split: sum.splits)
  ultimately show ?thesis by blast
qed

theorem validate_report_witness:
  "validate demo_request demo_world = ((ValidationReport True [], 200), demo_world) \<and>
   (\<exists>errors. validate bad_request demo_world = ((ValidationReport False errors, 200), demo_world) \<and>
      length errors = 1)"
proof -
  have rq: "request_json demo_request = Inr demo_data" by (simp add: demo_request_def)
  have bq: "request_json bad_request = Inr (JObj [(''ship'', demo_ship), (''cargo'', JArr [bad_item])])"
    by (simp add: bad_request_def)
  show ?thesis
    using validate_report [OF rq demo_data_conditions(1), of demo_world]
      validate_report [OF bq bad_data_conditions(1), of demo_world]
    by (simp add: spec_valid_def violations_def demo_data_conditions(2) bad_data_conditions(2))
qed

end
